theory Spec2Isabelle
  imports Main "HOL-Library.Sublist"
begin

section \<open>JavaScript strings\<close>

text \<open>
  A JavaScript string is a sequence of UTF-16 code units; a code unit is modelled as a
  natural number below 65536. \<open>asc\<close> reads an ASCII literal as such a sequence.
\<close>

type_synonym jsstring = "nat list"

definition asc :: "string \<Rightarrow> jsstring" where
  "asc s = map of_char s"

text \<open>
  \<open>String.prototype.toLowerCase\<close>, on the ASCII letters. Code units outside ASCII are
  left as they are: this is exact on the Indic scripts (which have no case) and on every
  literal of the service's tables.
\<close>

definition lowerUnit :: "nat \<Rightarrow> nat" where
  "lowerUnit c = (if 65 \<le> c \<and> c \<le> 90 then c + 32 else c)"

definition toLowerCase :: "jsstring \<Rightarrow> jsstring" where
  "toLowerCase s = map lowerUnit s"

fun startsWith :: "jsstring \<Rightarrow> jsstring \<Rightarrow> bool" where
  "startsWith s [] = True"
| "startsWith [] (p # ps) = False"
| "startsWith (c # cs) (p # ps) = (c = p \<and> startsWith cs ps)"

text \<open>\<open>String.prototype.includes\<close>: the needle occurs as a contiguous substring.\<close>

fun jsIncludes :: "jsstring \<Rightarrow> jsstring \<Rightarrow> bool" where
  "jsIncludes [] sub = (sub = [])"
| "jsIncludes (c # cs) sub = (startsWith (c # cs) sub \<or> jsIncludes cs sub)"

text \<open>\<open>s.replace(pat, rep)\<close> with a string pattern: the first occurrence only.\<close>

fun replaceStr :: "jsstring \<Rightarrow> jsstring \<Rightarrow> jsstring \<Rightarrow> jsstring" where
  "replaceStr [] pat rep = (if pat = [] then rep else [])"
| "replaceStr (c # cs) pat rep =
     (if startsWith (c # cs) pat then rep @ drop (length pat) (c # cs)
      else c # replaceStr cs pat rep)"

text \<open>
  \<open>String.prototype.trim\<close> and the class \<open>\s\<close>: the white space and line
  terminator code units of ECMAScript.
\<close>

definition wsRanges :: "(nat \<times> nat) list" where
  "wsRanges = [(9, 13), (32, 32), (160, 160), (5760, 5760), (8192, 8202), (8232, 8233),
     (8239, 8239), (8287, 8287), (12288, 12288), (65279, 65279)]"

definition inRanges :: "(nat \<times> nat) list \<Rightarrow> nat \<Rightarrow> bool" where
  "inRanges rs c = list_ex (\<lambda>r. fst r \<le> c \<and> c \<le> snd r) rs"

definition isSpace :: "nat \<Rightarrow> bool" where
  "isSpace c = inRanges wsRanges c"

definition trim :: "jsstring \<Rightarrow> jsstring" where
  "trim s = rev (dropWhile isSpace (rev (dropWhile isSpace s)))"

section \<open>Regular expressions\<close>

text \<open>
  The fragment of ECMAScript regular expressions the service uses: literal code units,
  classes and negated classes, sequence, alternation with left-to-right priority, greedy
  and lazy repetition, capturing groups and the end-of-input assertion \<open>$\<close>. There
  are no back references, no look-around, no \<open>^\<close> and no \<open>\b\<close> in the service.
\<close>

datatype re =
    RChr nat
  | RCls "(nat \<times> nat) list"
  | RNot "(nat \<times> nat) list"
  | REps
  | RSeq re re
  | RAlt re re
  | RStar re
  | RLazy re
  | RGrp nat re
  | REnd

text \<open>
  Under the flag \<open>i\<close> two code units match when their canonical forms agree; the
  canonical form is the upper-case letter, on ASCII (as for \<open>toLowerCase\<close>).
\<close>

definition canon :: "nat \<Rightarrow> nat" where
  "canon c = (if 97 \<le> c \<and> c \<le> 122 then c - 32 else c)"

definition unitEq :: "bool \<Rightarrow> nat \<Rightarrow> nat \<Rightarrow> bool" where
  "unitEq ci p c = (if ci then canon p = canon c else p = c)"

definition classHas :: "bool \<Rightarrow> (nat \<times> nat) list \<Rightarrow> nat \<Rightarrow> bool" where
  "classHas ci rs c =
     (inRanges rs c \<or> (ci \<and> (inRanges rs (canon c) \<or> inRanges rs (lowerUnit c))))"

type_synonym caps = "(nat \<times> jsstring) list"

text \<open>
  The backtracking matcher. \<open>rmatch ci r s c\<close> lists, in the priority order of the
  backtracking search, every way \<open>r\<close> matches a prefix of \<open>s\<close>: the input that is
  left and the captures (the newest binding of a group first). A repetition gives up an
  iteration that consumes nothing, as ECMAScript does. A capture inside a repeated group
  keeps its binding between iterations; the service reads only captures that stand
  outside every quantifier.
\<close>

fun rmatch :: "bool \<Rightarrow> re \<Rightarrow> jsstring \<Rightarrow> caps \<Rightarrow> (jsstring \<times> caps) list" where
  "rmatch ci (RChr p) s c =
     (case s of [] \<Rightarrow> [] | x # xs \<Rightarrow> if unitEq ci p x then [(xs, c)] else [])"
| "rmatch ci (RCls rs) s c =
     (case s of [] \<Rightarrow> [] | x # xs \<Rightarrow> if classHas ci rs x then [(xs, c)] else [])"
| "rmatch ci (RNot rs) s c =
     (case s of [] \<Rightarrow> [] | x # xs \<Rightarrow> if classHas ci rs x then [] else [(xs, c)])"
| "rmatch ci REps s c = [(s, c)]"
| "rmatch ci (RSeq a b) s c =
     concat (map (\<lambda>m. rmatch ci b (fst m) (snd m)) (rmatch ci a s c))"
| "rmatch ci (RAlt a b) s c = rmatch ci a s c @ rmatch ci b s c"
| "rmatch ci (RStar a) s c =
     concat (map (\<lambda>m. if length (fst m) < length s then rmatch ci (RStar a) (fst m) (snd m) else [])
                 (rmatch ci a s c)) @ [(s, c)]"
| "rmatch ci (RLazy a) s c =
     (s, c) # concat (map (\<lambda>m. if length (fst m) < length s then rmatch ci (RLazy a) (fst m) (snd m) else [])
                 (rmatch ci a s c))"
| "rmatch ci (RGrp k a) s c =
     map (\<lambda>m. (fst m, (k, take (length s - length (fst m)) s) # snd m)) (rmatch ci a s c)"
| "rmatch ci REnd s c = (if s = [] then [(s, c)] else [])"

text \<open>Derived forms: literals, lists of alternatives, \<open>+\<close>, \<open>?\<close>, \<open>{n,}\<close>, \<open>{n,m}\<close>.\<close>

fun rlit :: "jsstring \<Rightarrow> re" where
  "rlit [] = REps"
| "rlit [x] = RChr x"
| "rlit (x # y # ys) = RSeq (RChr x) (rlit (y # ys))"

fun rseqs :: "re list \<Rightarrow> re" where
  "rseqs [] = REps"
| "rseqs [r] = r"
| "rseqs (r # q # qs) = RSeq r (rseqs (q # qs))"

fun ralts :: "re list \<Rightarrow> re" where
  "ralts [] = REps"
| "ralts [r] = r"
| "ralts (r # q # qs) = RAlt r (ralts (q # qs))"

definition rplus :: "re \<Rightarrow> re" where
  "rplus r = RSeq r (RStar r)"

definition ropt :: "re \<Rightarrow> re" where
  "ropt r = RAlt r REps"

fun rupto :: "nat \<Rightarrow> re \<Rightarrow> re" where
  "rupto 0 r = REps"
| "rupto (Suc n) r = ropt (RSeq r (rupto n r))"

fun rtimes :: "nat \<Rightarrow> re \<Rightarrow> re \<Rightarrow> re" where
  "rtimes 0 r q = q"
| "rtimes (Suc n) r q = RSeq r (rtimes n r q)"

definition ratleast :: "nat \<Rightarrow> re \<Rightarrow> re" where
  "ratleast n r = rtimes n r (RStar r)"

definition rbetween :: "nat \<Rightarrow> nat \<Rightarrow> re \<Rightarrow> re" where
  "rbetween n m r = rtimes n r (rupto (m - n) r)"

definition digitR :: "(nat \<times> nat) list" where
  "digitR = [(48, 57)]"

definition wordR :: "(nat \<times> nat) list" where
  "wordR = [(48, 57), (65, 90), (95, 95), (97, 122)]"

definition anyChar :: re where
  "anyChar = RNot [(10, 10), (13, 13), (8232, 8233)]"

text \<open>
  A regular expression literal with its flags. \<open>exec\<close> finds the leftmost match: the
  index where it starts, its length and its captures.
\<close>

datatype regex = Regex re string

fun ignoreCase :: "regex \<Rightarrow> bool" where
  "ignoreCase (Regex r fl) = (CHR ''i'' \<in> set fl)"

fun isGlobal :: "regex \<Rightarrow> bool" where
  "isGlobal (Regex r fl) = (CHR ''g'' \<in> set fl)"

fun body :: "regex \<Rightarrow> re" where
  "body (Regex r fl) = r"

fun firstMatch :: "nat \<Rightarrow> jsstring \<Rightarrow> (jsstring \<times> caps) list \<Rightarrow> (nat \<times> nat \<times> caps) option" where
  "firstMatch i s [] = None"
| "firstMatch i s (m # ms) = Some (i, length s - length (fst m), snd m)"

fun execFrom :: "bool \<Rightarrow> re \<Rightarrow> nat \<Rightarrow> jsstring \<Rightarrow> (nat \<times> nat \<times> caps) option" where
  "execFrom ci r i [] = firstMatch i [] (rmatch ci r [] [])"
| "execFrom ci r i (x # xs) =
     (case firstMatch i (x # xs) (rmatch ci r (x # xs) []) of
        Some m \<Rightarrow> Some m
      | None \<Rightarrow> execFrom ci r (Suc i) xs)"

definition exec :: "regex \<Rightarrow> jsstring \<Rightarrow> (nat \<times> nat \<times> caps) option" where
  "exec rx s = execFrom (ignoreCase rx) (body rx) 0 s"

text \<open>\<open>rx.test(s)\<close>, for a regular expression without the flag \<open>g\<close>.\<close>

definition jsTest :: "regex \<Rightarrow> jsstring \<Rightarrow> bool" where
  "jsTest rx s = (exec rx s \<noteq> None)"

text \<open>
  \<open>s.match(rx)\<close> without the flag \<open>g\<close>, read the way the service reads it: the
  result is \<open>None\<close> when there is no match, and otherwise the captures; \<open>capture m k\<close> is
  \<open>m[k]\<close>, with \<open>None\<close> for \<open>undefined\<close>.
\<close>

definition jsMatch :: "jsstring \<Rightarrow> regex \<Rightarrow> caps option" where
  "jsMatch s rx = (case exec rx s of None \<Rightarrow> None | Some m \<Rightarrow> Some (snd (snd m)))"

definition capture :: "caps \<Rightarrow> nat \<Rightarrow> jsstring option" where
  "capture c k = map_of c k"

subsection \<open>Replacing and splitting\<close>

text \<open>
  \<open>s.replace(rx, rep)\<close> for a replacement text without \<open>$\<close>: the first match is
  replaced, and with the flag \<open>g\<close> every match, each search starting where the previous
  match ended (one code unit further after an empty match). No pattern of the service
  looks behind the place where it starts, so that the rest of the text is searched as a
  text of its own.
\<close>

definition replaceFirst :: "bool \<Rightarrow> re \<Rightarrow> jsstring \<Rightarrow> jsstring \<Rightarrow> jsstring" where
  "replaceFirst ci r rep s =
     (case execFrom ci r 0 s of
        None \<Rightarrow> s
      | Some m \<Rightarrow> take (fst m) s @ rep @ drop (fst m + fst (snd m)) s)"

lemma execFrom_bounds:
  "execFrom ci r i0 s = Some m \<Longrightarrow> i0 \<le> fst m \<and> fst m - i0 + fst (snd m) \<le> length s"
proof (induction s arbitrary: i0)
  case Nil
  then show ?case by (cases "rmatch ci r [] []") auto
next
  case (Cons x xs)
  show ?case
  proof (cases "rmatch ci r (x # xs) []")
    case Nil
    with Cons.prems have "execFrom ci r (Suc i0) xs = Some m" by simp
    from Cons.IH [OF this] show ?thesis by auto
  next
    case (Cons a list)
    with Cons.prems show ?thesis by auto
  qed
qed

function replaceAll :: "bool \<Rightarrow> re \<Rightarrow> jsstring \<Rightarrow> jsstring \<Rightarrow> jsstring" where
  "replaceAll ci r rep s =
     (case execFrom ci r 0 s of
        None \<Rightarrow> s
      | Some m \<Rightarrow>
          take (fst m) s @ rep @
          (if fst (snd m) = 0
           then (if fst m < length s
                 then take 1 (drop (fst m) s) @ replaceAll ci r rep (drop (Suc (fst m)) s)
                 else [])
           else replaceAll ci r rep (drop (fst m + fst (snd m)) s)))"
  by pat_completeness auto
termination
proof (relation "measure (\<lambda>(ci, r, rep, s). length s)")
  show "wf (measure (\<lambda>(ci, r, rep, s). length s))" by simp
next
  fix ci r rep s m
  assume "execFrom ci r 0 s = Some m" "fst (snd m) = 0" "fst m < length s"
  then show "((ci, r, rep, drop (Suc (fst m)) s), (ci, r, rep, s)) \<in> measure (\<lambda>(ci, r, rep, s). length s)"
    by simp
next
  fix ci r rep s m
  assume e: "execFrom ci r 0 s = Some m" and n: "fst (snd m) \<noteq> 0"
  from execFrom_bounds [OF e] n have "0 < length s" by auto
  with n show "((ci, r, rep, drop (fst m + fst (snd m)) s), (ci, r, rep, s)) \<in> measure (\<lambda>(ci, r, rep, s). length s)"
    by simp
qed

declare replaceAll.simps [simp del]

definition jsReplace :: "jsstring \<Rightarrow> regex \<Rightarrow> jsstring \<Rightarrow> jsstring" where
  "jsReplace s rx rep =
     (if isGlobal rx then replaceAll (ignoreCase rx) (body rx) rep s
      else replaceFirst (ignoreCase rx) (body rx) rep s)"

text \<open>
  \<open>s.split(/\s+/)\<close>: the pieces between the maximal runs of white space; a text that
  starts or ends with white space has an empty first or last piece.
\<close>

function splitFrom :: "jsstring \<Rightarrow> jsstring \<Rightarrow> jsstring list" where
  "splitFrom piece [] = [piece]"
| "splitFrom piece (x # xs) =
     (if isSpace x then piece # splitFrom [] (dropWhile isSpace xs)
      else splitFrom (piece @ [x]) xs)"
  by pat_completeness auto
termination
  by (relation "measure (\<lambda>(piece, s). length s)")
    (auto simp: le_imp_less_Suc length_dropWhile_le)

definition splitSpaces :: "jsstring \<Rightarrow> jsstring list" where
  "splitSpaces s = splitFrom [] s"

text \<open>
  \<open>parseInt(s)\<close> without a radix: leading white space, a sign, then hexadecimal digits
  after \<open>0x\<close> and decimal digits otherwise; \<open>None\<close> is \<open>NaN\<close>.
\<close>

definition digitValue :: "nat \<Rightarrow> nat option" where
  "digitValue c =
     (if 48 \<le> c \<and> c \<le> 57 then Some (c - 48)
      else if 97 \<le> c \<and> c \<le> 102 then Some (c - 87)
      else if 65 \<le> c \<and> c \<le> 70 then Some (c - 55)
      else None)"

fun readDigits :: "nat \<Rightarrow> nat option \<Rightarrow> jsstring \<Rightarrow> nat option" where
  "readDigits radix acc [] = acc"
| "readDigits radix acc (x # xs) =
     (case digitValue x of
        None \<Rightarrow> acc
      | Some d \<Rightarrow>
          if d < radix
          then readDigits radix (Some ((case acc of None \<Rightarrow> 0 | Some a \<Rightarrow> a) * radix + d)) xs
          else acc)"

definition readUnsigned :: "jsstring \<Rightarrow> nat option" where
  "readUnsigned s =
     (if startsWith s (asc ''0x'') \<or> startsWith s (asc ''0X'')
      then readDigits 16 None (drop 2 s)
      else readDigits 10 None s)"

definition parseInt :: "jsstring \<Rightarrow> int option" where
  "parseInt s =
     (let t = dropWhile isSpace s in
      if startsWith t (asc ''-'') then map_option (\<lambda>n. - int n) (readUnsigned (drop 1 t))
      else if startsWith t (asc ''+'') then map_option int (readUnsigned (drop 1 t))
      else map_option int (readUnsigned t))"

section \<open>Search results\<close>

text \<open>
  A search result as the service handles it: \<open>title\<close>, \<open>link\<close> and \<open>snippet\<close> are
  strings. The raw items of the search API carry an optional \<open>pagemap\<close> as well, and the
  ranked results the details read from it (both are extensions of this record, below).
\<close>

record listing =
  title :: jsstring
  link :: jsstring
  snippet :: jsstring

text \<open>Decimal notation of a number, as a template literal prints it.\<close>

fun showNat :: "nat \<Rightarrow> jsstring" where
  "showNat n = (if n < 10 then [48 + n] else showNat (n div 10) @ [48 + n mod 10])"

declare showNat.simps [simp del]

section \<open>languageService\<close>

subsection \<open>detectLanguage\<close>

text \<open>
  \<open>languagePatterns\<close> (languageService.js, lines 25-67), in the order of the object
  literal, which is the order \<open>Object.entries\<close> iterates. A pattern of the form
  "three or more code units between lo and hi" is \<open>scriptRun lo hi\<close>; \<open>hindiWords\<close> is the second pattern
  of \<open>hi\<close> (line 29) and \<open>marathiPattern\<close> the pattern of \<open>mr\<close> (line 33).
\<close>

definition scriptRun :: "nat \<Rightarrow> nat \<Rightarrow> regex" where
  "scriptRun lo hi = Regex (ratleast 3 (RCls [(lo, hi)])) ''''"

definition hindiWords :: regex where
  "hindiWords =
     Regex (RGrp 1 (ralts [rlit [2325, 2376, 2360, 2375], rlit [2325, 2381, 2351, 2366],
       rlit [2325, 2380, 2344], rlit [2325, 2361, 2366, 2305], rlit [2325, 2381, 2351, 2379,
       2306], rlit [2350, 2376, 2306], rlit [2361, 2350], rlit [2340, 2369, 2350], rlit [2310,
       2346], rlit [2357, 2361], rlit [2351, 2361], rlit [2350, 2375, 2352, 2366], rlit [2361,
       2350, 2366, 2352, 2366], rlit [2350, 2369, 2333, 2375], rlit [2361, 2350, 2375,
       2306]])) ''i''"

definition marathiPattern :: regex where
  "marathiPattern =
     Regex (rseqs [ratleast 3 (RCls [(2304, 2431)]), RLazy anyChar, RGrp 1 (ralts [rlit [2310,
       2361, 2375], rlit [2344, 2366, 2361, 2368], rlit [2325, 2366, 2351], rlit [2325, 2360,
       2375], rlit [2325, 2379, 2339], rlit [2325, 2369, 2336, 2375], rlit [2325, 2366],
       rlit [2350, 2368], rlit [2310, 2350, 2381, 2361, 2368], rlit [2340, 2370], rlit [2340,
       2369, 2350, 2381, 2361, 2368], rlit [2340, 2379], rlit [2340, 2368], rlit [2340, 2375],
       rlit [2350, 2366, 2333, 2366], rlit [2310, 2350, 2330, 2366], rlit [2350, 2354, 2366],
       rlit [2310, 2350, 2381, 2361, 2366, 2354, 2366]])]) ''i''"

definition languagePatterns :: "(jsstring \<times> regex list) list" where
  "languagePatterns = [
     (asc ''hi'', [scriptRun 0x0900 0x097F, hindiWords]),
     (asc ''mr'', [marathiPattern]),
     (asc ''gu'', [scriptRun 0x0A80 0x0AFF]),
     (asc ''bn'', [scriptRun 0x0980 0x09FF]),
     (asc ''ta'', [scriptRun 0x0B80 0x0BFF]),
     (asc ''te'', [scriptRun 0x0C00 0x0C7F]),
     (asc ''kn'', [scriptRun 0x0C80 0x0CFF]),
     (asc ''ml'', [scriptRun 0x0D00 0x0D7F]),
     (asc ''pa'', [scriptRun 0x0A00 0x0A7F]),
     (asc ''ur'', [scriptRun 0x0600 0x06FF])]"

text \<open>
  The argument of \<open>detectLanguage\<close> is any JavaScript value; only a string is looked at.
\<close>

datatype jsvalue = Str jsstring | NotAString

fun firstLanguage :: "(jsstring \<times> regex list) list \<Rightarrow> jsstring \<Rightarrow> jsstring" where
  "firstLanguage [] s = asc ''en''"
| "firstLanguage (entry # rest) s =
     (if list_ex (\<lambda>pattern. jsTest pattern s) (snd entry) then fst entry
      else firstLanguage rest s)"

definition detectLanguage :: "jsvalue \<Rightarrow> jsstring" where
  "detectLanguage text =
     (case text of
        NotAString \<Rightarrow> asc ''en''
      | Str s \<Rightarrow>
          if s = [] \<or> length (trim s) = 0 then asc ''en''
          else firstLanguage languagePatterns s)"

subsection \<open>formatSearchResultsInLanguage\<close>







text \<open>
  The words of the specification: a text "contains at least three contiguous code points
  from the block between \<open>lo\<close> and \<open>hi\<close>".
\<close>

fun hasRun :: "nat \<Rightarrow> nat \<Rightarrow> jsstring \<Rightarrow> bool" where
  "hasRun lo hi (x # y # z # t) =
     ((lo \<le> x \<and> x \<le> hi \<and> lo \<le> y \<and> y \<le> hi \<and> lo \<le> z \<and> z \<le> hi) \<or> hasRun lo hi (y # z # t))"
| "hasRun lo hi s = False"

text \<open>
  The blocks of the nine scripts, and "a pattern of a language that stands before
  \<open>langCode\<close> in \<open>languagePatterns\<close> matches the text".
\<close>

definition scriptBlocks :: "(jsstring \<times> nat \<times> nat) list" where
  "scriptBlocks = [
     (asc ''hi'', 0x0900, 0x097F), (asc ''gu'', 0x0A80, 0x0AFF), (asc ''bn'', 0x0980, 0x09FF),
     (asc ''ta'', 0x0B80, 0x0BFF), (asc ''te'', 0x0C00, 0x0C7F), (asc ''kn'', 0x0C80, 0x0CFF),
     (asc ''ml'', 0x0D00, 0x0D7F), (asc ''pa'', 0x0A00, 0x0A7F), (asc ''ur'', 0x0600, 0x06FF)]"

fun matchesBefore :: "(jsstring \<times> regex list) list \<Rightarrow> jsstring \<Rightarrow> jsstring \<Rightarrow> bool" where
  "matchesBefore [] langCode s = False"
| "matchesBefore (entry # rest) langCode s =
     (if fst entry = langCode then False
      else list_ex (\<lambda>pattern. jsTest pattern s) (snd entry) \<or> matchesBefore rest langCode s)"

section \<open>webSearchService: the tier of the source site\<close>

text \<open>The constructor's list of premium portals (webSearchService.js, lines 27-30).\<close>

definition premiumPortals :: "jsstring list" where
  "premiumPortals = [
     asc ''99acres.com'', asc ''magicbricks.com'', asc ''housing.com'', asc ''nobroker.in'',
     asc ''commonfloor.com'', asc ''squareyards.com'', asc ''makaan.com'',
     asc ''proptiger.com'']"

text \<open>
  \<open>realEstateWebsites\<close> of \<open>calculateRelevanceScore\<close> (lines 443-447): the premium
  names are the portals without their first \<open>.com\<close> and their first \<open>.in\<close>.
\<close>

definition premiumSites :: "jsstring list" where
  "premiumSites =
     map (\<lambda>portal. replaceStr (replaceStr portal (asc ''.com'') []) (asc ''.in'') []) premiumPortals"

definition standardSites :: "jsstring list" where
  "standardSites = [
     asc ''commonfloor'', asc ''squareyards'', asc ''makaan'', asc ''proptiger'',
     asc ''propertywala'', asc ''indiaproperty'']"

definition otherSites :: "jsstring list" where
  "otherSites = [
     asc ''olx'', asc ''quikr'', asc ''nestaway'', asc ''zolo'', asc ''stanza'',
     asc ''colive'', asc ''facebook'', asc ''instagram'', asc ''linkedin'']"

text \<open>
  The three loops of lines 449-475, each taking the running score and returning it
  updated; \<open>linkLower\<close> is the lower-cased link of the item. The second and the third loop run only
  while the score is still 0.
\<close>

definition tierPremium :: "jsstring \<Rightarrow> int \<Rightarrow> int" where
  "tierPremium linkLower score =
     (if list_ex (\<lambda>site. jsIncludes linkLower site) premiumSites then score + 20 else score)"

definition tierStandard :: "jsstring \<Rightarrow> int \<Rightarrow> int" where
  "tierStandard linkLower score =
     (if score = 0
      then (if list_ex (\<lambda>site. jsIncludes linkLower site) standardSites then score + 15 else score)
      else score)"

definition tierOther :: "jsstring \<Rightarrow> int \<Rightarrow> int" where
  "tierOther linkLower score =
     (if score = 0
      then (if list_ex (\<lambda>site. jsIncludes linkLower site) otherSites then score + 5 else score)
      else score)"

section \<open>webSearchService: the intent of a query\<close>

text \<open>
  \<open>searchRealEstateInfo(query, leadInfo)\<close> reads three fields of the lead, each absent
  or a string; an absent field and the empty string are both \<open>[]\<close>. The record has the
  two other slots of an intent as well; the function never reads them.
\<close>

record leadInfo =
  lead_preferredLocation :: jsstring
  lead_budget :: jsstring
  lead_propertyType :: jsstring
  lead_transactionType :: jsstring
  lead_bedrooms :: jsstring

text \<open>
  The five local variables \<open>location\<close>, \<open>budget\<close>, \<open>propertyType\<close>,
  \<open>transactionType\<close> and \<open>bedrooms\<close> that the function extracts (lines 60-177).
\<close>

record intent =
  location :: jsstring
  budget :: jsstring
  propertyType :: jsstring
  transactionType :: jsstring
  bedrooms :: jsstring

text \<open>The tables of lines 61-67, 84-90, 107-116, 132-133 and 153-159.\<close>

definition locationPatterns :: "regex list" where
  "locationPatterns = [
     Regex (rseqs [ralts [rlit (asc ''in''), rlit (asc ''at''), rlit (asc ''near''),
       rlit (asc ''around''), rlit (asc ''within'')], rplus (RCls wsRanges),
       RGrp 1 (rplus (RCls (wordR @ wsRanges @ [(44, 44)])))]) ''i'',
     Regex (rseqs [RGrp 1 (rplus (RCls (wordR @ wsRanges @ [(44, 44)]))),
       rplus (RCls wsRanges), ralts [rlit (asc ''area''), rlit (asc ''locality''),
       rlit (asc ''region''), rlit (asc ''district''), rlit (asc ''neighborhood'')]]) ''i'',
     Regex (rseqs [rlit (asc ''propertie''), ropt (RChr 115), rplus (RCls wsRanges),
       ralts [rlit (asc ''in''), rlit (asc ''at''), rlit (asc ''near''), rlit (asc ''around''),
       rlit (asc ''within'')], rplus (RCls wsRanges),
       RGrp 1 (rplus (RCls (wordR @ wsRanges @ [(44, 44)])))]) ''i'',
     Regex (RGrp 1 (ralts [rlit (asc ''mumbai''), rlit (asc ''delhi''),
       rlit (asc ''bangalore''), rlit (asc ''hyderabad''), rlit (asc ''chennai''),
       rlit (asc ''kolkata''), rlit (asc ''pune''), rlit (asc ''ahmedabad''),
       rlit (asc ''jaipur''), rlit (asc ''surat''), rlit (asc ''lucknow''),
       rlit (asc ''kanpur''), rlit (asc ''nagpur''), rlit (asc ''indore''),
       rlit (asc ''thane''), rlit (asc ''bhopal''), rlit (asc ''visakhapatnam''),
       rlit (asc ''patna''), rlit (asc ''vadodara''), rlit (asc ''ghaziabad''),
       rlit (asc ''ludhiana''), rlit (asc ''agra''), rlit (asc ''nashik''),
       rlit (asc ''faridabad''), rlit (asc ''meerut''), rlit (asc ''rajkot''),
       rlit (asc ''varanasi''), rlit (asc ''srinagar''), rlit (asc ''aurangabad''),
       rlit (asc ''dhanbad''), rlit (asc ''amritsar''), rlit (asc ''navi mumbai''),
       rlit (asc ''allahabad''), rlit (asc ''ranchi''), rlit (asc ''howrah''),
       rlit (asc ''coimbatore''), rlit (asc ''jabalpur''), rlit (asc ''gwalior''),
       rlit (asc ''vijayawada''), rlit (asc ''jodhpur''), rlit (asc ''madurai''),
       rlit (asc ''raipur''), rlit (asc ''kota''), rlit (asc ''guwahati''),
       rlit (asc ''chandigarh''), rlit (asc ''solapur''), rlit (asc ''hubli''),
       rlit (asc ''dharwad''), rlit (asc ''bareilly''), rlit (asc ''moradabad''),
       rlit (asc ''mysore''), rlit (asc ''gurgaon''), rlit (asc ''aligarh''),
       rlit (asc ''jalandhar''), rlit (asc ''tiruchirappalli''), rlit (asc ''bhubaneswar''),
       rlit (asc ''salem''), rlit (asc ''mira-bhayandar''), rlit (asc ''warangal''),
       rlit (asc ''guntur''), rlit (asc ''bhiwandi''), rlit (asc ''saharanpur''),
       rlit (asc ''gorakhpur''), rlit (asc ''bikaner''), rlit (asc ''amravati''),
       rlit (asc ''noida''), rlit (asc ''jamshedpur''), rlit (asc ''bhilai''),
       rlit (asc ''cuttack''), rlit (asc ''firozabad''), rlit (asc ''kochi''),
       rlit (asc ''nellore''), rlit (asc ''bhavnagar''), rlit (asc ''dehradun''),
       rlit (asc ''durgapur''), rlit (asc ''asansol''), rlit (asc ''rourkela''),
       rlit (asc ''nanded''), rlit (asc ''kolhapur''), rlit (asc ''ajmer''),
       rlit (asc ''akola''), rlit (asc ''gulbarga''), rlit (asc ''jamnagar''),
       rlit (asc ''ujjain''), rlit (asc ''loni''), rlit (asc ''siliguri''),
       rlit (asc ''jhansi''), rlit (asc ''ulhasnagar''), rlit (asc ''jammu''),
       rlit (asc ''sangli-miraj''), rlit (asc ''mangalore''), rlit (asc ''erode''),
       rlit (asc ''belgaum''), rlit (asc ''ambattur''), rlit (asc ''tirunelveli''),
       rlit (asc ''malegaon''), rlit (asc ''gaya''), rlit (asc ''jalgaon''),
       rlit (asc ''udaipur''), rlit (asc ''maheshtala''), rlit (asc ''tirupur''),
       rlit (asc ''davanagere''), rlit (asc ''kozhikode''), rlit (asc ''akbarpur''),
       rlit (asc ''korba''), rlit (asc ''bhilwara''), rlit (asc ''berhampur''),
       rlit (asc ''muzaffarpur''), rlit (asc ''ahmednagar''), rlit (asc ''mathura''),
       rlit (asc ''kollam''), rlit (asc ''avadi''), rlit (asc ''kadapa''),
       rlit (asc ''kamarhati''), rlit (asc ''sambalpur''), rlit (asc ''bilaspur''),
       rlit (asc ''shahjahanpur''), rlit (asc ''satara''), rlit (asc ''bijapur''),
       rlit (asc ''rampur''), rlit (asc ''shimoga''), rlit (asc ''chandrapur''),
       rlit (asc ''tumkur''), rlit (asc ''muzaffarnagar''), rlit (asc ''bhagalpur''),
       rlit (asc ''bally''), rlit (asc ''panihati''), rlit (asc ''rohtak''),
       rlit (asc ''sagar''), rlit (asc ''bidar''), rlit (asc ''brahmapur''),
       rlit (asc ''baranagar''), rlit (asc ''darbhanga''), rlit (asc ''sonipat''),
       rlit (asc ''srinagar''), rlit (asc ''pondicherry''), rlit (asc ''durg''),
       rlit (asc ''imphal''), rlit (asc ''ratlam''), rlit (asc ''hapur''),
       rlit (asc ''anantapur''), rlit (asc ''arrah''), rlit (asc ''karimnagar''),
       rlit (asc ''etawah''), rlit (asc ''ambarnath''), rlit (asc ''north''),
       rlit (asc ''dumdum''), rlit (asc ''bharatpur''), rlit (asc ''begusarai''),
       rlit (asc ''new''), rlit (asc ''delhi''), rlit (asc ''gandhidham''),
       rlit (asc ''barasat''), rlit (asc ''guwahati''), rlit (asc ''rae''),
       rlit (asc ''bareli''), rlit (asc ''khammam''), rlit (asc ''bhilai''),
       rlit (asc ''nagar''), rlit (asc ''bhiwani''), rlit (asc ''cuddalore''),
       rlit (asc ''rajpur''), rlit (asc ''sonarpur''), rlit (asc ''rajahmundry''),
       rlit (asc ''bokaro''), rlit (asc ''south''), rlit (asc ''dumdum''),
       rlit (asc ''bellary''), rlit (asc ''patiala''), rlit (asc ''gopalpur''),
       rlit (asc ''agartala''), rlit (asc ''bhagalpur''), rlit (asc ''bhatpara''),
       rlit (asc ''hazaribagh''), rlit (asc ''dhule''), rlit (asc ''panvel''),
       rlit (asc ''nellore''), rlit (asc ''mango''), rlit (asc ''malegaon''),
       rlit (asc ''gaya''), rlit (asc ''haldia''), rlit (asc ''kurnool''), rlit (asc ''ajmer''),
       rlit (asc ''tiruppur''), rlit (asc ''ambala''), rlit (asc ''panipat''),
       rlit (asc ''kottayam''), rlit (asc ''gandhidham''), rlit (asc ''tirupati''),
       rlit (asc ''karnal''), rlit (asc ''bathinda''), rlit (asc ''rampur''),
       rlit (asc ''shivamogga''), rlit (asc ''raebareli''), rlit (asc ''khammam''),
       rlit (asc ''bhilai''), rlit (asc ''nagar''), rlit (asc ''bhiwani''),
       rlit (asc ''cuddalore''), rlit (asc ''rajpur''), rlit (asc ''sonarpur''),
       rlit (asc ''rajahmundry''), rlit (asc ''bokaro''), rlit (asc ''south''),
       rlit (asc ''dumdum''), rlit (asc ''bellary''), rlit (asc ''patiala''),
       rlit (asc ''gopalpur''), rlit (asc ''agartala''), rlit (asc ''bhagalpur''),
       rlit (asc ''bhatpara''), rlit (asc ''hazaribagh''), rlit (asc ''dhule''),
       rlit (asc ''panvel''), rlit (asc ''nellore''), rlit (asc ''mango''),
       rlit (asc ''malegaon''), rlit (asc ''gaya''), rlit (asc ''haldia''),
       rlit (asc ''kurnool''), rlit (asc ''ajmer''), rlit (asc ''tiruppur''),
       rlit (asc ''ambala''), rlit (asc ''panipat''), rlit (asc ''kottayam''),
       rlit (asc ''gandhidham''), rlit (asc ''tirupati''), rlit (asc ''karnal''),
       rlit (asc ''bathinda''), rlit (asc ''rampur''), rlit (asc ''shivamogga''),
       rlit (asc ''raebareli''), rlit (asc ''khammam''), rlit (asc ''bhilai''),
       rlit (asc ''nagar''), rlit (asc ''bhiwani''), rlit (asc ''cuddalore''),
       rlit (asc ''rajpur''), rlit (asc ''sonarpur''), rlit (asc ''rajahmundry''),
       rlit (asc ''bokaro''), rlit (asc ''south''), rlit (asc ''dumdum''),
       rlit (asc ''bellary''), rlit (asc ''patiala''), rlit (asc ''gopalpur''),
       rlit (asc ''agartala''), rlit (asc ''bhagalpur''), rlit (asc ''bhatpara''),
       rlit (asc ''hazaribagh''), rlit (asc ''dhule''), rlit (asc ''panvel''),
       rlit (asc ''nellore''), rlit (asc ''mango''), rlit (asc ''malegaon''),
       rlit (asc ''gaya''), rlit (asc ''haldia''), rlit (asc ''kurnool''), rlit (asc ''ajmer''),
       rlit (asc ''tiruppur''), rlit (asc ''ambala''), rlit (asc ''panipat''),
       rlit (asc ''kottayam''), rlit (asc ''gandhidham''), rlit (asc ''tirupati''),
       rlit (asc ''karnal''), rlit (asc ''bathinda''), rlit (asc ''rampur''),
       rlit (asc ''shivamogga''), rlit (asc ''raebareli'')])) ''i'']"
definition budgetPatterns :: "regex list" where
  "budgetPatterns = [
     Regex (rseqs [ralts [rlit (asc ''budget''), rlit (asc ''price''), rlit (asc ''cost''),
       rlit (asc ''value''), rlit (asc ''worth''), rlit (asc ''range'')], rplus (RCls wsRanges),
       ropt (ralts [rlit (asc ''of''), rlit (asc ''is''), rlit (asc ''around''),
       rlit (asc ''about'')]), RStar (RCls wsRanges), ropt (ralts [rseqs [rlit (asc ''rs''),
       ropt (RChr 46)], rlit (asc ''inr''), rlit [8377]]), RStar (RCls wsRanges),
       RGrp 1 (rseqs [RCls digitR, RStar (RCls (digitR @ [(44, 44), (46, 46)]))])]) ''i'',
     Regex (rseqs [RGrp 1 (rseqs [RCls digitR, RStar (RCls (digitR @ [(44, 44), (46, 46)]))]),
       RStar (RCls wsRanges), ralts [rseqs [rlit (asc ''rs''), ropt (RChr 46)],
       rlit (asc ''inr''), rlit [8377], rlit (asc ''lakh''), rlit (asc ''crore''),
       rlit (asc ''k''), rlit (asc ''l''), rlit (asc ''cr'')]]) ''i'',
     Regex (rseqs [ralts [rlit (asc ''budget''), rlit (asc ''price''), rlit (asc ''cost''),
       rlit (asc ''value''), rlit (asc ''worth''), rlit (asc ''range'')], rplus (RCls wsRanges),
       ralts [rlit (asc ''between''), rlit (asc ''from'')], RStar (RCls wsRanges),
       ropt (ralts [rseqs [rlit (asc ''rs''), ropt (RChr 46)], rlit (asc ''inr''),
       rlit [8377]]), RStar (RCls wsRanges), RGrp 1 (rseqs [RCls digitR,
       RStar (RCls (digitR @ [(44, 44), (46, 46)]))]), RStar (RCls wsRanges),
       ralts [rlit (asc ''to''), rlit (asc ''-''), rlit (asc ''and'')], RStar (RCls wsRanges),
       ropt (ralts [rseqs [rlit (asc ''rs''), ropt (RChr 46)], rlit (asc ''inr''),
       rlit [8377]]), RStar (RCls wsRanges), RGrp 2 (rseqs [RCls digitR,
       RStar (RCls (digitR @ [(44, 44), (46, 46)]))])]) ''i'',
     Regex (rseqs [ralts [rlit (asc ''under''), rlit (asc ''below''),
       rlit (asc ''less than''), rlit (asc ''maximum''), rlit (asc ''max'')],
       RStar (RCls wsRanges), ropt (ralts [rseqs [rlit (asc ''rs''), ropt (RChr 46)],
       rlit (asc ''inr''), rlit [8377]]), RStar (RCls wsRanges), RGrp 1 (rseqs [RCls digitR,
       RStar (RCls (digitR @ [(44, 44), (46, 46)]))])]) ''i'',
     Regex (rseqs [ralts [rlit (asc ''above''), rlit (asc ''over''), rlit (asc ''more than''),
       rlit (asc ''minimum''), rlit (asc ''min'')], RStar (RCls wsRanges),
       ropt (ralts [rseqs [rlit (asc ''rs''), ropt (RChr 46)], rlit (asc ''inr''),
       rlit [8377]]), RStar (RCls wsRanges), RGrp 1 (rseqs [RCls digitR,
       RStar (RCls (digitR @ [(44, 44), (46, 46)]))])]) ''i'']"
definition propertyTypes :: "jsstring list" where
  "propertyTypes = [
     asc ''apartment'', asc ''house'', asc ''villa'', asc ''flat'', asc ''plot'', asc ''land'',
     asc ''penthouse'', asc ''studio'', asc ''duplex'', asc ''bungalow'', asc ''cottage'',
     asc ''farmhouse'', asc ''rowhouse'', asc ''townhouse'', asc ''1bhk'', asc ''2bhk'',
     asc ''3bhk'', asc ''4bhk'', asc ''5bhk'', asc ''rk'', asc ''single room'',
     asc ''commercial'', asc ''office'', asc ''shop'', asc ''retail'', asc ''warehouse'',
     asc ''industrial'', asc ''pg'', asc ''paying guest'', asc ''independent house'',
     asc ''independent floor'', asc ''builder floor'', asc ''kothi'', asc ''haveli'',
     asc ''residential apartment'', asc ''residential plot'', asc ''residential land'',
     asc ''residential house'', asc ''commercial property'', asc ''commercial space'',
     asc ''commercial plot'', asc ''commercial land'', asc ''agricultural land'',
     asc ''farm land'', asc ''farm house'', asc ''resort'', asc ''service apartment'']"
definition buyTerms :: "jsstring list" where
  "buyTerms = [
     asc ''buy'', asc ''purchase'', asc ''buying'', asc ''purchasing'', asc ''own'',
     asc ''owning'', asc ''investment'', asc ''investing'', asc ''kharidna'', asc ''kharid'',
     [2326, 2352, 2368, 2342, 2344, 2366], [2326, 2352, 2368, 2342], [2357, 2367, 2325, 2351],
     [2326, 2352, 2375, 2342, 2368], [2710, 2736, 2752, 2726, 2741, 2753, 2690]]"
definition rentTerms :: "jsstring list" where
  "rentTerms = [
     asc ''rent'', asc ''renting'', asc ''lease'', asc ''leasing'', asc ''temporary'',
     asc ''short term'', asc ''kiraya'', [2325, 2367, 2352, 2366, 2351, 2366], [2349, 2366,
     2337, 2364, 2375], [2349, 2366, 2337, 2375], [2733, 2750, 2721, 2759]]"
definition bedroomPatterns :: "regex list" where
  "bedroomPatterns = [
     Regex (rseqs [RGrp 1 (rplus (RCls digitR)), RStar (RCls wsRanges),
       rlit (asc ''bhk'')]) ''i'',
     Regex (rseqs [RGrp 1 (rplus (RCls digitR)), RStar (RCls wsRanges),
       rlit (asc ''bedroom'')]) ''i'',
     Regex (rseqs [RGrp 1 (rplus (RCls digitR)), RStar (RCls wsRanges),
       rlit (asc ''bed'')]) ''i'',
     Regex (rseqs [RGrp 1 (ralts [rlit (asc ''one''), rlit (asc ''two''),
       rlit (asc ''three''), rlit (asc ''four''), rlit (asc ''five''), rlit (asc ''1''),
       rlit (asc ''2''), rlit (asc ''3''), rlit (asc ''4''), rlit (asc ''5'')]),
       RStar (RCls wsRanges), ralts [rlit (asc ''bedroom''), rlit (asc ''bhk''),
       rlit (asc ''bed'')]]) ''i'',
     Regex (rseqs [ralts [rlit (asc ''single''), rlit (asc ''double''),
       rlit (asc ''triple'')], RStar (RCls wsRanges), ralts [rlit (asc ''bedroom''),
       rlit (asc ''bhk''), rlit (asc ''bed'')]]) ''i'']"
text \<open>The pattern \<open>/[,.]/g\<close> of line 100.\<close>

definition separators :: regex where
  "separators = Regex (RCls [(44, 44), (46, 46)]) ''g''"
text \<open>
  The loop \<open>for (const pattern of patterns) { const match = query.match(pattern);
  if (match && match[1]) { ...; break; } }\<close>: the first capture of the first pattern that
  matches with a first capture that is neither \<open>undefined\<close> nor empty.
\<close>

fun firstCapture :: "regex list \<Rightarrow> jsstring \<Rightarrow> jsstring option" where
  "firstCapture [] query = None"
| "firstCapture (pattern # rest) query =
     (case jsMatch query pattern of
        None \<Rightarrow> firstCapture rest query
      | Some m \<Rightarrow>
          (case capture m 1 of
             None \<Rightarrow> firstCapture rest query
           | Some g \<Rightarrow> if g = [] then firstCapture rest query else Some g))"

definition extractLocation :: "leadInfo \<Rightarrow> jsstring \<Rightarrow> jsstring" where
  "extractLocation lead query =
     (if lead_preferredLocation lead \<noteq> [] then lead_preferredLocation lead
      else case firstCapture locationPatterns query of
             None \<Rightarrow> []
           | Some g \<Rightarrow> trim g)"

definition extractBudget :: "leadInfo \<Rightarrow> jsstring \<Rightarrow> jsstring" where
  "extractBudget lead query =
     (if lead_budget lead \<noteq> [] then lead_budget lead
      else case firstCapture budgetPatterns query of
             None \<Rightarrow> []
           | Some g \<Rightarrow> jsReplace g separators [])"

definition extractPropertyType :: "leadInfo \<Rightarrow> jsstring \<Rightarrow> jsstring" where
  "extractPropertyType lead query =
     (if lead_propertyType lead \<noteq> [] then lead_propertyType lead
      else case find (\<lambda>type. jsIncludes (toLowerCase query) type) propertyTypes of
             None \<Rightarrow> []
           | Some type \<Rightarrow> type)"

definition extractTransactionType :: "jsstring \<Rightarrow> jsstring" where
  "extractTransactionType query =
     (if list_ex (\<lambda>w. jsIncludes (toLowerCase query) w) buyTerms then asc ''buy''
      else if list_ex (\<lambda>w. jsIncludes (toLowerCase query) w) rentTerms then asc ''rent''
      else [])"

text \<open>The conversion of lines 165-174, applied to the capture \<open>match[1]\<close>.\<close>

definition toDigits :: "jsstring \<Rightarrow> jsstring" where
  "toDigits g =
     (if toLowerCase g = asc ''one'' then asc ''1''
      else if toLowerCase g = asc ''two'' then asc ''2''
      else if toLowerCase g = asc ''three'' then asc ''3''
      else if toLowerCase g = asc ''four'' then asc ''4''
      else if toLowerCase g = asc ''five'' then asc ''5''
      else if toLowerCase g = asc ''single'' then asc ''1''
      else if toLowerCase g = asc ''double'' then asc ''2''
      else if toLowerCase g = asc ''triple'' then asc ''3''
      else g)"

definition extractBedrooms :: "jsstring \<Rightarrow> jsstring" where
  "extractBedrooms query =
     (case firstCapture bedroomPatterns query of
        None \<Rightarrow> []
      | Some g \<Rightarrow> toDigits g)"

definition extractIntent :: "jsstring \<Rightarrow> leadInfo \<Rightarrow> intent" where
  "extractIntent query lead =
     \<lparr>location = extractLocation lead query,
      budget = extractBudget lead query,
      propertyType = extractPropertyType lead query,
      transactionType = extractTransactionType query,
      bedrooms = extractBedrooms query\<rparr>"

section \<open>webSearchService: the enhanced query\<close>











section \<open>webSearchService: the relevance score\<close>

text \<open>
  A raw item of the search API: a listing with an optional \<open>pagemap\<close>. Of the pagemap
  the service reads whether \<open>metatags\<close>, \<open>product\<close>, \<open>offer\<close>, \<open>image\<close> and
  \<open>cse_image\<close> are present, and the first element of \<open>metatags\<close> and of \<open>product\<close>
  (the search API delivers non-empty arrays); a field that is absent is the empty string.
\<close>

record metatags =
  og_description :: jsstring
  og_image :: jsstring

record product =
  product_price :: jsstring
  product_name :: jsstring

record pagemap =
  pm_metatags :: "metatags option"
  pm_product :: "product option"
  pm_offer :: bool
  pm_image :: bool
  pm_cse_image :: bool

record searchItem = listing +
  item_pagemap :: "pagemap option"

text \<open>The tables of \<open>calculateRelevanceScore\<close> (lines 489-501, 538-550, 589-613, 632-648,
  659-660, 694 and 701-709).\<close>

definition relatedTypes :: "(jsstring \<times> jsstring list) list" where
  "relatedTypes = [
     (asc ''apartment'', [asc ''flat'', asc ''condo'', asc ''condominium'',
       asc ''residential apartment'']),
     (asc ''flat'', [asc ''apartment'', asc ''condo'', asc ''condominium'',
       asc ''residential flat'']),
     (asc ''house'', [asc ''villa'', asc ''bungalow'', asc ''independent'', asc ''kothi'',
       asc ''residential house'']),
     (asc ''villa'', [asc ''house'', asc ''bungalow'', asc ''independent'', asc ''kothi'']),
     (asc ''plot'', [asc ''land'', asc ''residential plot'', asc ''residential land'']),
     (asc ''land'', [asc ''plot'', asc ''residential land'', asc ''residential plot'']),
     (asc ''1bhk'', [asc ''1 bhk'', asc ''one bedroom'', asc ''1 bedroom'',
       asc ''single bedroom'']),
     (asc ''2bhk'', [asc ''2 bhk'', asc ''two bedroom'', asc ''2 bedroom'',
       asc ''double bedroom'']),
     (asc ''3bhk'', [asc ''3 bhk'', asc ''three bedroom'', asc ''3 bedroom'',
       asc ''triple bedroom'']),
     (asc ''4bhk'', [asc ''4 bhk'', asc ''four bedroom'', asc ''4 bedroom'',
       asc ''quadruple bedroom'']),
     (asc ''commercial'', [asc ''office'', asc ''shop'', asc ''retail'',
       asc ''commercial property'', asc ''commercial space''])]"
definition pricePatterns :: "regex list" where
  "pricePatterns = [
     Regex (rseqs [rlit [8377], RStar (RCls wsRanges), RCls digitR,
       RStar (RCls (digitR @ [(44, 44), (46, 46)])), RStar (RCls wsRanges),
       ropt (RGrp 1 (ralts [rlit (asc ''lakh''), rlit (asc ''crore''), rlit (asc ''k''),
       rlit (asc ''l''), rlit (asc ''cr'')]))]) ''i'',
     Regex (rseqs [rlit (asc ''rs''), ropt (RChr 46), RStar (RCls wsRanges), RCls digitR,
       RStar (RCls (digitR @ [(44, 44), (46, 46)])), RStar (RCls wsRanges),
       ropt (RGrp 1 (ralts [rlit (asc ''lakh''), rlit (asc ''crore''), rlit (asc ''k''),
       rlit (asc ''l''), rlit (asc ''cr'')]))]) ''i'',
     Regex (rseqs [rlit (asc ''inr''), RStar (RCls wsRanges), RCls digitR,
       RStar (RCls (digitR @ [(44, 44), (46, 46)])), RStar (RCls wsRanges),
       ropt (RGrp 1 (ralts [rlit (asc ''lakh''), rlit (asc ''crore''), rlit (asc ''k''),
       rlit (asc ''l''), rlit (asc ''cr'')]))]) ''i'',
     Regex (rseqs [RCls digitR, RStar (RCls (digitR @ [(44, 44), (46, 46)])),
       RStar (RCls wsRanges), RGrp 1 (ralts [rlit (asc ''lakh''), rlit (asc ''crore''),
       rlit (asc ''k''), rlit (asc ''l''), rlit (asc ''cr'')])]) ''i'',
     Regex (rseqs [rlit (asc ''price''), RStar (RCls wsRanges), rlit (asc '':''),
       RStar (RCls wsRanges), RCls digitR, RStar (RCls (digitR @ [(44, 44), (46, 46)]))]) ''i'',
     Regex (rseqs [rlit (asc ''cost''), RStar (RCls wsRanges), rlit (asc '':''),
       RStar (RCls wsRanges), RCls digitR, RStar (RCls (digitR @ [(44, 44), (46, 46)]))]) ''i'',
     Regex (rseqs [rlit (asc ''budget''), RStar (RCls wsRanges), rlit (asc '':''),
       RStar (RCls wsRanges), RCls digitR, RStar (RCls (digitR @ [(44, 44), (46, 46)]))]) ''i'',
     Regex (rseqs [rplus (RCls digitR), ropt (RGrp 1 (rseqs [rlit (asc ''.''),
       rplus (RCls digitR)])), RStar (RCls wsRanges), rlit (asc ''cr'')]) ''i'',
     Regex (rseqs [rplus (RCls digitR), ropt (RGrp 1 (rseqs [rlit (asc ''.''),
       rplus (RCls digitR)])), RStar (RCls wsRanges), rlit (asc ''l'')]) ''i'',
     Regex (rseqs [rplus (RCls digitR), ropt (RGrp 1 (rseqs [rlit (asc ''.''),
       rplus (RCls digitR)])), RStar (RCls wsRanges), rlit (asc ''lacs'')]) ''i'',
     Regex (rseqs [rplus (RCls digitR), ropt (RGrp 1 (rseqs [rlit (asc ''.''),
       rplus (RCls digitR)])), RStar (RCls wsRanges), rlit (asc ''lakhs'')]) ''i'']"
definition propertyDetailPatterns :: "regex list" where
  "propertyDetailPatterns = [
     Regex (rseqs [rplus (RCls digitR), RStar (RCls wsRanges), rlit (asc ''bhk'')]) ''i'',
     Regex (rseqs [rplus (RCls digitR), RStar (RCls wsRanges), rlit (asc ''bedroom'')]) ''i'',
     Regex (rseqs [rplus (RCls digitR), RStar (RCls wsRanges), rlit (asc ''bath'')]) ''i'',
     Regex (rseqs [rplus (RCls digitR), RStar (RCls wsRanges), rlit (asc ''sq''),
       ropt (RChr 46), RStar (RCls wsRanges), rlit (asc ''ft'')]) ''i'',
     Regex (rseqs [rplus (RCls digitR), RStar (RCls wsRanges), rlit (asc ''square''),
       RStar (RCls wsRanges), rlit (asc ''feet'')]) ''i'',
     Regex (rseqs [rplus (RCls digitR), RStar (RCls wsRanges), rlit (asc ''sq''),
       ropt (RChr 46), RStar (RCls wsRanges), rlit (asc ''m'')]) ''i'',
     Regex (rseqs [rplus (RCls digitR), RStar (RCls wsRanges), rlit (asc ''acre'')]) ''i'',
     Regex (rseqs [rplus (RCls digitR), RStar (RCls wsRanges), rlit (asc ''yard'')]) ''i'',
     Regex (rlit (asc ''amenities'')) ''i'',
     Regex (rlit (asc ''furnished'')) ''i'',
     Regex (rlit (asc ''semi-furnished'')) ''i'',
     Regex (rlit (asc ''unfurnished'')) ''i'',
     Regex (rseqs [rlit (asc ''carpet''), RStar (RCls wsRanges), rlit (asc ''area'')]) ''i'',
     Regex (rseqs [rlit (asc ''built''), RStar (RCls wsRanges), rlit (asc ''up''),
       RStar (RCls wsRanges), rlit (asc ''area'')]) ''i'',
     Regex (rseqs [rlit (asc ''super''), RStar (RCls wsRanges), rlit (asc ''built''),
       RStar (RCls wsRanges), rlit (asc ''up'')]) ''i'',
     Regex (rseqs [rlit (asc ''floor''), RStar (RCls wsRanges), rlit (asc ''plan'')]) ''i'',
     Regex (rseqs [rlit (asc ''master''), RStar (RCls wsRanges),
       rlit (asc ''bedroom'')]) ''i'',
     Regex (rseqs [rlit (asc ''attached''), RStar (RCls wsRanges), rlit (asc ''bath'')]) ''i'',
     Regex (rseqs [rlit (asc ''modular''), RStar (RCls wsRanges),
       rlit (asc ''kitchen'')]) ''i'',
     Regex (rseqs [rlit (asc ''power''), RStar (RCls wsRanges), rlit (asc ''backup'')]) ''i'',
     Regex (rseqs [rlit (asc ''24x7''), RStar (RCls wsRanges), rlit (asc ''water'')]) ''i'',
     Regex (rlit (asc ''security'')) ''i'',
     Regex (ralts [rlit (asc ''gym''), rseqs [rlit (asc ''swimming''), RStar (RCls wsRanges),
       rlit (asc ''pool'')], rseqs [rlit (asc ''club''), RStar (RCls wsRanges),
       rlit (asc ''house'')], rlit (asc ''garden''), rlit (asc ''park'')]) ''i'']"
definition recencyPatterns :: "regex list" where
  "recencyPatterns = [
     Regex (rseqs [rlit (asc ''new''), RStar (RCls wsRanges), rlit (asc ''launch'')]) ''i'',
     Regex (rseqs [rlit (asc ''just''), RStar (RCls wsRanges), rlit (asc ''launch'')]) ''i'',
     Regex (rlit (asc ''recent'')) ''i'',
     Regex (rlit (asc ''latest'')) ''i'',
     Regex (rseqs [rlit (asc ''new''), RStar (RCls wsRanges), rlit (asc ''project'')]) ''i'',
     Regex (rseqs [rlit (asc ''under''), RStar (RCls wsRanges),
       rlit (asc ''construction'')]) ''i'',
     Regex (rseqs [rlit (asc ''ready''), RStar (RCls wsRanges), rlit (asc ''to''),
       RStar (RCls wsRanges), rlit (asc ''move'')]) ''i'',
     Regex (rseqs [rlit (asc ''immediate''), RStar (RCls wsRanges),
       rlit (asc ''possession'')]) ''i'',
     Regex (rseqs [rbetween 1 2 (RCls digitR), RStar (RCls wsRanges), rlit (asc ''day''),
       ropt (RChr 115), RStar (RCls wsRanges), rlit (asc ''ago'')]) ''i'',
     Regex (rseqs [rbetween 1 2 (RCls digitR), RStar (RCls wsRanges), rlit (asc ''hour''),
       ropt (RChr 115), RStar (RCls wsRanges), rlit (asc ''ago'')]) ''i'',
     Regex (rseqs [rlit (asc ''possession''), RStar (RCls wsRanges), rlit (asc ''in''),
       RStar (RCls wsRanges), rbetween 4 4 (RCls digitR)]) ''i'',
     Regex (rseqs [rlit (asc ''completion''), RStar (RCls wsRanges), rlit (asc ''in''),
       RStar (RCls wsRanges), rbetween 4 4 (RCls digitR)]) ''i'',
     Regex (rseqs [rlit (asc ''ready''), RStar (RCls wsRanges), rlit (asc ''to''),
       RStar (RCls wsRanges), rlit (asc ''move''), RStar (RCls wsRanges),
       rlit (asc ''in'')]) ''i'',
     Regex (rseqs [rlit (asc ''newly''), RStar (RCls wsRanges), rlit (asc ''built'')]) ''i'',
     Regex (rseqs [rlit (asc ''fresh''), RStar (RCls wsRanges), rlit (asc ''listing'')]) ''i'']"
definition buyPatterns :: "regex list" where
  "buyPatterns = [
     Regex (rlit (asc ''buy'')) ''i'',
     Regex (rlit (asc ''sale'')) ''i'',
     Regex (rlit (asc ''selling'')) ''i'',
     Regex (rlit (asc ''purchase'')) ''i'',
     Regex (rlit (asc ''invest'')) ''i'',
     Regex (rlit (asc ''ownership'')) ''i'',
     Regex (rlit [2326, 2352, 2368, 2342, 2344, 2366]) ''i'',
     Regex (rlit [2326, 2352, 2368, 2342]) ''i'',
     Regex (rlit [2357, 2367, 2325, 2351]) ''i'',
     Regex (rlit [2326, 2352, 2375, 2342, 2368]) ''i'',
     Regex (rlit [2710, 2736, 2752, 2726, 2741, 2753, 2690]) ''i'']"
definition rentPatterns :: "regex list" where
  "rentPatterns = [
     Regex (rlit (asc ''rent'')) ''i'',
     Regex (rlit (asc ''lease'')) ''i'',
     Regex (rlit (asc ''renting'')) ''i'',
     Regex (rlit (asc ''leasing'')) ''i'',
     Regex (rlit (asc ''to let'')) ''i'',
     Regex (rlit (asc ''for let'')) ''i'',
     Regex (rlit [2325, 2367, 2352, 2366, 2351, 2366]) ''i'',
     Regex (rlit [2349, 2366, 2337, 2364, 2375]) ''i'',
     Regex (rlit [2349, 2366, 2337, 2375]) ''i'',
     Regex (rlit [2733, 2750, 2721, 2759]) ''i'']"
definition realEstateVocabulary :: regex where
  "realEstateVocabulary =
     Regex (ralts [rlit (asc ''property''), rlit (asc ''estate''), rlit (asc ''home''),
       rlit (asc ''house''), rlit (asc ''apartment''), rlit (asc ''flat''),
       rlit (asc ''villa''), rlit (asc ''plot''), rlit (asc ''land''), rlit (asc ''bhk''),
       rlit (asc ''residential''), rlit (asc ''commercial''), rlit (asc ''rent''),
       rlit (asc ''sale''), rlit (asc ''broker''), rlit (asc ''agent''), rlit (asc ''realty''),
       rlit (asc ''builder''), rlit (asc ''construction''), rlit (asc ''project''),
       rlit (asc ''township''), rlit (asc ''society''), rlit (asc ''floor''),
       rlit (asc ''bedroom''), rlit (asc ''bathroom''), rlit (asc ''kitchen''),
       rlit (asc ''hall''), rlit (asc ''balcony''), rlit (asc ''terrace''),
       rlit (asc ''parking''), rlit (asc ''amenities''), rlit (asc ''possession''),
       rlit (asc ''ownership''), rlit (asc ''lease'')]) ''i''"
definition detailTerms :: "jsstring list" where
  "detailTerms = [
     asc ''bhk'', asc ''bedroom'', asc ''bathroom'', asc ''sq ft'', asc ''square feet'',
     asc ''carpet area'', asc ''built up'', asc ''super built up'', asc ''floor'',
     asc ''storey'', asc ''parking'', asc ''garden'', asc ''balcony'', asc ''terrace'',
     asc ''kitchen'', asc ''hall'', asc ''living room'', asc ''dining room'',
     asc ''study room'', asc ''servant room'', asc ''pooja room'', asc ''store room'',
     asc ''lobby'', asc ''entrance'', asc ''lift'', asc ''elevator'', asc ''power backup'',
     asc ''water supply'', asc ''security'', asc ''gym'', asc ''swimming pool'',
     asc ''club house'', asc ''park'', asc ''playground'', asc ''jogging track'',
     asc ''tennis court'', asc ''basketball court'', asc ''badminton court'',
     asc ''squash court'', asc ''amphitheatre'', asc ''banquet hall'', asc ''party hall'',
     asc ''community hall'', asc ''shopping center'', asc ''school'', asc ''hospital'',
     asc ''market'', asc ''mall'', asc ''metro'', asc ''bus stop'', asc ''railway station'',
     asc ''airport'']"
text \<open>
  \<open>title.match(pattern) || snippet.match(pattern)\<close> as a condition: one of the two
  texts has a match.
\<close>

definition eitherMatches :: "jsstring \<Rightarrow> jsstring \<Rightarrow> regex \<Rightarrow> bool" where
  "eitherMatches titleLower snippetLower pattern =
     (jsMatch titleLower pattern \<noteq> None \<or> jsMatch snippetLower pattern \<noteq> None)"

text \<open>
  The steps of the function after the three loops over the sites, in the order of the
  source; each takes the running score and returns it updated. \<open>titleLower\<close> and
  \<open>snippetLower\<close> are the lower-cased title and snippet of the item.
\<close>

definition scorePropertyType :: "jsstring \<Rightarrow> jsstring \<Rightarrow> jsstring \<Rightarrow> int \<Rightarrow> int" where
  "scorePropertyType titleLower snippetLower ptype score =
     (if ptype \<noteq> [] then
        if jsIncludes titleLower ptype then score + 12
        else if jsIncludes snippetLower ptype then score + 8
        else case map_of relatedTypes ptype of
               None \<Rightarrow> score
             | Some types \<Rightarrow>
                 if list_ex (\<lambda>related. jsIncludes titleLower related \<or> jsIncludes snippetLower related) types
                 then score + 6 else score
      else score)"

definition scoreLocation :: "jsstring \<Rightarrow> jsstring \<Rightarrow> jsstring \<Rightarrow> int \<Rightarrow> int" where
  "scoreLocation titleLower snippetLower loc score =
     (if loc \<noteq> [] then
        let locationLower = toLowerCase loc in
        if jsIncludes titleLower locationLower then score + 15
        else if jsIncludes snippetLower locationLower then score + 10
        else if list_ex (\<lambda>part. length part > 3 \<and>
                    (jsIncludes titleLower part \<or> jsIncludes snippetLower part))
                  (splitSpaces locationLower)
             then score + 5 else score
      else score)"

definition scorePrice :: "jsstring \<Rightarrow> jsstring \<Rightarrow> int \<Rightarrow> int" where
  "scorePrice titleLower snippetLower score =
     (if list_ex (eitherMatches titleLower snippetLower) pricePatterns then score + 8 else score)"

text \<open>
  The four patterns \<open>new RegExp(`${bedrooms}\\s*bhk`, 'i')\<close> and so on (lines 562-567).
  The bedroom count is a string of digits, which stands for itself in a pattern.
\<close>

definition bedroomCountPatterns :: "jsstring \<Rightarrow> regex list" where
  "bedroomCountPatterns beds = [
     Regex (rseqs [rlit beds, RStar (RCls wsRanges), rlit (asc ''bhk'')]) ''i'',
     Regex (rseqs [rlit beds, RStar (RCls wsRanges), rlit (asc ''bedroom'')]) ''i'',
     Regex (rseqs [rlit beds, RStar (RCls wsRanges), rlit (asc ''bed'')]) ''i'',
     Regex (rseqs [rlit beds, RStar (RCls wsRanges), rlit (asc ''rk'')]) ''i'']"

definition atLeast3 :: "int option \<Rightarrow> bool" where
  "atLeast3 n = (case n of None \<Rightarrow> False | Some k \<Rightarrow> k \<ge> 3)"

definition scoreBedrooms :: "jsstring \<Rightarrow> jsstring \<Rightarrow> jsstring \<Rightarrow> int \<Rightarrow> int" where
  "scoreBedrooms titleLower snippetLower beds score =
     (if beds \<noteq> [] then
        if list_ex (eitherMatches titleLower snippetLower) (bedroomCountPatterns beds)
        then score + 15
        else if atLeast3 (parseInt beds) \<and>
                (jsIncludes titleLower (asc ''spacious'') \<or> jsIncludes titleLower (asc ''large'') \<or>
                 jsIncludes snippetLower (asc ''spacious'') \<or> jsIncludes snippetLower (asc ''large''))
             then score + 3 else score
      else score)"

definition scoreDetails :: "jsstring \<Rightarrow> jsstring \<Rightarrow> int \<Rightarrow> int" where
  "scoreDetails titleLower snippetLower score =
     (let detailMatchCount =
            length (filter (eitherMatches titleLower snippetLower) propertyDetailPatterns)
      in if detailMatchCount \<ge> 5 then score + 12
         else if detailMatchCount \<ge> 3 then score + 8
         else if detailMatchCount \<ge> 1 then score + 4
         else score)"

definition scoreRecency :: "jsstring \<Rightarrow> jsstring \<Rightarrow> int \<Rightarrow> int" where
  "scoreRecency titleLower snippetLower score =
     (if list_ex (eitherMatches titleLower snippetLower) recencyPatterns then score + 5 else score)"

definition scoreTransaction :: "jsstring \<Rightarrow> jsstring \<Rightarrow> jsstring \<Rightarrow> int \<Rightarrow> int" where
  "scoreTransaction titleLower snippetLower ttype score =
     (if ttype \<noteq> [] then
        if ttype = asc ''buy'' then
          let score1 = (if list_ex (eitherMatches titleLower snippetLower) buyPatterns
                        then score + 10 else score)
          in if list_ex (eitherMatches titleLower snippetLower) rentPatterns
             then score1 - 15 else score1
        else if ttype = asc ''rent'' then
          let score1 = (if list_ex (eitherMatches titleLower snippetLower) rentPatterns
                        then score + 10 else score)
          in if list_ex (eitherMatches titleLower snippetLower) buyPatterns
             then score1 - 15 else score1
        else score
      else score)"

definition scoreUnrelated :: "jsstring \<Rightarrow> jsstring \<Rightarrow> int \<Rightarrow> int" where
  "scoreUnrelated titleLower snippetLower score =
     (if jsMatch titleLower realEstateVocabulary = None \<and>
         jsMatch snippetLower realEstateVocabulary = None
      then score - 20 else score)"

definition scoreDetailTerms :: "jsstring \<Rightarrow> jsstring \<Rightarrow> int \<Rightarrow> int" where
  "scoreDetailTerms titleLower snippetLower score =
     (let detailCount =
            length (filter (\<lambda>w. jsIncludes titleLower w \<or> jsIncludes snippetLower w) detailTerms)
      in if detailCount \<ge> 5 then score + 10
         else if detailCount \<ge> 3 then score + 6
         else if detailCount \<ge> 1 then score + 3
         else score)"

definition scorePagemap :: "pagemap option \<Rightarrow> int \<Rightarrow> int" where
  "scorePagemap pm score =
     (case pm of
        None \<Rightarrow> score
      | Some p \<Rightarrow>
          (let score1 = (if pm_metatags p \<noteq> None then score + 5 else score);
               score2 = (if pm_product p \<noteq> None then score1 + 8 else score1);
               score3 = (if pm_offer p then score2 + 5 else score2)
           in if pm_image p \<or> pm_cse_image p then score3 + 5 else score3))"

definition scoreComplete :: "jsstring \<Rightarrow> jsstring \<Rightarrow> jsstring \<Rightarrow> int \<Rightarrow> int" where
  "scoreComplete titleLower snippetLower linkLower score =
     (if length titleLower > 20 \<and> length snippetLower > 50 \<and> length linkLower > 15
      then score + 5 else score)"

text \<open>
  \<open>calculateRelevanceScore(item, query, location, propertyType, transactionType,
  bedrooms)\<close> (lines 434-747). The function lower-cases the query and never reads it.
\<close>

definition calculateRelevanceScore ::
    "searchItem \<Rightarrow> jsstring \<Rightarrow> jsstring \<Rightarrow> jsstring \<Rightarrow> jsstring \<Rightarrow> jsstring \<Rightarrow> int" where
  "calculateRelevanceScore item query loc ptype ttype beds =
     (let titleLower = toLowerCase (title item);
          snippetLower = toLowerCase (snippet item);
          linkLower = toLowerCase (link item)
      in scoreComplete titleLower snippetLower linkLower
          (scorePagemap (item_pagemap item)
            (scoreDetailTerms titleLower snippetLower
              (scoreUnrelated titleLower snippetLower
                (scoreTransaction titleLower snippetLower ttype
                  (scoreRecency titleLower snippetLower
                    (scoreDetails titleLower snippetLower
                      (scoreBedrooms titleLower snippetLower beds
                        (scorePrice titleLower snippetLower
                          (scoreLocation titleLower snippetLower loc
                            (scorePropertyType titleLower snippetLower ptype
                              (tierOther linkLower
                                (tierStandard linkLower
                                  (tierPremium linkLower 0))))))))))))))"

section \<open>webSearchService: ranking\<close>

text \<open>
  Lines 264-308. Each item gets its score; \<open>Array.prototype.sort\<close> with the comparison
  \<open>b.relevanceScore - a.relevanceScore\<close> is a stable sort by falling score
  (\<open>sort_key\<close> is the stable insertion sort of the library); then the details of the
  pagemap are read, and the first five results are returned.
\<close>

record scoredItem = searchItem +
  relevanceScore :: int

record enhancedItem = listing +
  description :: "jsstring option"
  image :: "jsstring option"
  price :: "jsstring option"
  name :: "jsstring option"

definition withScore ::
    "jsstring \<Rightarrow> jsstring \<Rightarrow> jsstring \<Rightarrow> jsstring \<Rightarrow> jsstring \<Rightarrow> searchItem \<Rightarrow> scoredItem" where
  "withScore query loc ptype ttype beds item =
     \<lparr>title = title item, link = link item, snippet = snippet item,
      item_pagemap = item_pagemap item,
      relevanceScore = calculateRelevanceScore item query loc ptype ttype beds\<rparr>"

definition sortByScore :: "scoredItem list \<Rightarrow> scoredItem list" where
  "sortByScore results = sort_key (\<lambda>r. - relevanceScore r) results"

definition truthy :: "jsstring \<Rightarrow> jsstring option" where
  "truthy s = (if s = [] then None else Some s)"

definition enhance :: "scoredItem \<Rightarrow> enhancedItem" where
  "enhance item =
     (let tags = (case item_pagemap item of None \<Rightarrow> None | Some p \<Rightarrow> pm_metatags p);
          prod = (case item_pagemap item of None \<Rightarrow> None | Some p \<Rightarrow> pm_product p)
      in \<lparr>title = title item, link = link item, snippet = snippet item,
          description = (case tags of None \<Rightarrow> None | Some m \<Rightarrow> truthy (og_description m)),
          image = (case tags of None \<Rightarrow> None | Some m \<Rightarrow> truthy (og_image m)),
          price = (case prod of None \<Rightarrow> None | Some p \<Rightarrow> truthy (product_price p)),
          name = (case prod of None \<Rightarrow> None | Some p \<Rightarrow> truthy (product_name p))\<rparr>)"

definition scoredResults :: "searchItem list \<Rightarrow> jsstring \<Rightarrow> intent \<Rightarrow> scoredItem list" where
  "scoredResults items query i =
     sortByScore
       (map (withScore query (location i) (propertyType i) (transactionType i) (bedrooms i)) items)"

definition rankResults :: "searchItem list \<Rightarrow> jsstring \<Rightarrow> intent \<Rightarrow> enhancedItem list" where
  "rankResults items query i = take 5 (map enhance (scoredResults items query i))"

section \<open>mistralService: the history of a conversation\<close>

text \<open>
  A stored message has a sender and a text; \<open>formatMessageHistory\<close> (lines 157-177)
  keeps the last ten and gives each the role \<open>user\<close> or \<open>assistant\<close>.
\<close>

record storedMessage =
  sender :: jsstring
  message :: jsstring

datatype role = User | Assistant

record turn =
  role :: role
  content :: jsstring

definition formatMessageHistory :: "storedMessage list \<Rightarrow> turn list" where
  "formatMessageHistory messageHistory =
     map (\<lambda>msg. \<lparr>role = (if sender msg = asc ''user'' then User else Assistant),
                  content = message msg\<rparr>)
       (drop (length messageHistory - 10) messageHistory)"

text \<open>
  The result of \<open>extractInfoFromHistory\<close>; a property of \<open>providedInfo\<close> that was never
  set is \<open>None\<close>.
\<close>

record providedInfo =
  provided_name :: "jsstring option"
  provided_budget :: "jsstring option"
  provided_propertyType :: "jsstring option"
  provided_preferredLocation :: "jsstring option"

record extractedInfo =
  askedAboutName :: bool
  askedAboutBudget :: bool
  askedAboutLocation :: bool
  askedAboutPropertyType :: bool
  providedInfo :: providedInfo

text \<open>The pattern tables of lines 190-250, the list of line 288 and the pattern of line 296.\<close>

definition nameQuestionPatterns :: "regex list" where
  "nameQuestionPatterns = [
     Regex (rseqs [rlit (asc ''what''), ralts [rlit [39, 115], rlit (asc '' is'')],
       rlit (asc '' your name'')]) ''i'',
     Regex (rlit (asc ''may I know your name'')) ''i'',
     Regex (rlit (asc ''could you tell me your name'')) ''i'',
     Regex (rlit (asc ''who am I speaking with'')) ''i'',
     Regex (rlit [2310, 2346, 2325, 2366, 32, 2344, 2366, 2350, 32, 2325, 2381, 2351, 2366,
       32, 2361, 2376]) ''i'',
     Regex (rlit [2310, 2346, 2325, 2366, 32, 2344, 2366, 2350, 32, 2348, 2340, 2366, 2319,
       2306]) ''i'',
     Regex (rlit [2340, 2369, 2350, 2330, 2375, 32, 2344, 2366, 2357, 32, 2325, 2366, 2351,
       32, 2310, 2361, 2375]) ''i'',
     Regex (rlit [2724, 2734, 2750, 2736, 2753, 2690, 32, 2728, 2750, 2734, 32, 2742, 2753,
       2690, 32, 2715, 2759]) ''i'']"
definition budgetQuestionPatterns :: "regex list" where
  "budgetQuestionPatterns = [
     Regex (rseqs [rlit (asc ''what''), ralts [rlit [39, 115], rlit (asc '' is'')],
       rlit (asc '' your budget'')]) ''i'',
     Regex (rseqs [rlit (asc ''budget''), RStar anyChar, rlit (asc ''range'')]) ''i'',
     Regex (rseqs [rlit (asc ''how much''), RStar anyChar, rlit (asc ''spend'')]) ''i'',
     Regex (rlit (asc ''price range'')) ''i'',
     Regex (rlit [2310, 2346, 2325, 2366, 32, 2348, 2332, 2335, 32, 2325, 2381, 2351, 2366,
       32, 2361, 2376]) ''i'',
     Regex (rlit [2325, 2367, 2340, 2344, 2366, 32, 2326, 2352, 2381, 2330, 32, 2325, 2352,
       32, 2360, 2325, 2340, 2375, 32, 2361, 2376, 2306]) ''i'',
     Regex (rlit [2340, 2369, 2350, 2330, 2375, 32, 2348, 2332, 2375, 2335, 32, 2325, 2367,
       2340, 2368, 32, 2310, 2361, 2375]) ''i'',
     Regex (rlit [2724, 2734, 2750, 2736, 2753, 2690, 32, 2732, 2716, 2759, 2719, 32, 2742,
       2753, 2690, 32, 2715, 2759]) ''i'']"
definition locationQuestionPatterns :: "regex list" where
  "locationQuestionPatterns = [
     Regex (rlit (asc ''preferred location'')) ''i'',
     Regex (rlit (asc ''which area'')) ''i'',
     Regex (rseqs [rlit (asc ''where''), RStar anyChar, rlit (asc ''looking'')]) ''i'',
     Regex (rlit (asc ''location preference'')) ''i'',
     Regex (rlit [2325, 2380, 2344, 32, 2360, 2366, 32, 2311, 2354, 2366, 2325, 2366]) ''i'',
     Regex (rlit [2325, 2361, 2366, 2306, 32, 2346, 2352, 32, 2330, 2366, 2361, 2340, 2375,
       32, 2361, 2376, 2306]) ''i'',
     Regex (rlit [2325, 2379, 2339, 2340, 2381, 2351, 2366, 32, 2349, 2366, 2327, 2366,
       2340]) ''i'',
     Regex (rlit [2709, 2765, 2735, 2750, 2690, 32, 2742, 2763, 2727, 2752, 32, 2736, 2745,
       2765, 2735, 2750, 32, 2715, 2763]) ''i'']"
definition propertyTypeQuestionPatterns :: "regex list" where
  "propertyTypeQuestionPatterns = [
     Regex (rlit (asc ''what type of property'')) ''i'',
     Regex (rseqs [rlit (asc ''looking for a ''), RGrp 1 (ralts [rlit (asc ''house''),
       rlit (asc ''apartment''), rlit (asc ''flat''), rlit (asc ''condo'')])]) ''i'',
     Regex (rlit (asc ''property type'')) ''i'',
     Regex (rlit [2325, 2367, 2360, 32, 2346, 2381, 2352, 2325, 2366, 2352, 32, 2325, 2368,
       32, 2360, 2306, 2346, 2340, 2381, 2340, 2367]) ''i'',
     Regex (rlit [2325, 2380, 2344, 32, 2360, 2366, 32, 2346, 2381, 2352, 2377, 2346, 2352,
       2381, 2335, 2368, 32, 2335, 2366, 2311, 2346]) ''i'',
     Regex (rlit [2325, 2379, 2339, 2340, 2381, 2351, 2366, 32, 2346, 2381, 2352, 2325, 2366,
       2352, 2330, 2368, 32, 2350, 2366, 2354, 2350, 2340, 2381, 2340, 2366]) ''i'',
     Regex (rlit [2709, 2735, 2750, 32, 2730, 2765, 2736, 2709, 2750, 2736, 2728, 2752, 32,
       2744, 2690, 2730, 2724, 2765, 2724, 2751]) ''i'']"
definition nameResponsePatterns :: "regex list" where
  "nameResponsePatterns = [
     Regex (rseqs [rlit (asc ''my name is ''),
       RGrp 1 (rplus (RCls (wordR @ wsRanges)))]) ''i'',
     Regex (rseqs [rlit (asc ''I am ''), RGrp 1 (rplus (RCls (wordR @ wsRanges)))]) ''i'',
     Regex (rseqs [rlit ([73, 39] @ asc ''m ''),
       RGrp 1 (rplus (RCls (wordR @ wsRanges)))]) ''i'',
     Regex (rseqs [rlit [2350, 2375, 2352, 2366, 32, 2344, 2366, 2350, 32],
       RGrp 1 (rplus (RCls (wordR @ wsRanges))), rlit [32, 2361, 2376]]) ''i'',
     Regex (rseqs [rlit [2350, 2366, 2333, 2375, 32, 2344, 2366, 2357, 32],
       RGrp 1 (rplus (RCls (wordR @ wsRanges))), rlit [32, 2310, 2361, 2375]]) ''i'',
     Regex (rseqs [rlit [2734, 2750, 2736, 2753, 2690, 32, 2728, 2750, 2734, 32],
       RGrp 1 (rplus (RCls (wordR @ wsRanges))), rlit [32, 2715, 2759]]) ''i'']"
definition budgetResponsePatterns :: "regex list" where
  "budgetResponsePatterns = [
     Regex (rseqs [rlit (asc ''budget is ''), RGrp 1 (rplus (RCls (digitR @ [(44,
       44)])))]) ''i'',
     Regex (rseqs [rlit (asc ''looking''), RStar anyChar, rlit (asc ''around ''),
       RGrp 1 (rplus (RCls (digitR @ [(44, 44)])))]) ''i'',
     Regex (rseqs [RGrp 1 (rplus (RCls (digitR @ [(44, 44)]))), RStar anyChar,
       rlit (asc ''budget'')]) ''i'',
     Regex (rseqs [rlit [2350, 2375, 2352, 2366, 32, 2348, 2332, 2335, 32],
       RGrp 1 (rplus (RCls (digitR @ [(44, 44)])))]) ''i'',
     Regex (rseqs [rlit [2350, 2366, 2333, 2375, 32, 2348, 2332, 2375, 2335, 32],
       RGrp 1 (rplus (RCls (digitR @ [(44, 44)])))]) ''i'',
     Regex (rseqs [rlit [2734, 2750, 2736, 2753, 2690, 32, 2732, 2716, 2759, 2719, 32],
       RGrp 1 (rplus (RCls (digitR @ [(44, 44)])))]) ''i'']"
definition mentionedPropertyTypes :: "jsstring list" where
  "mentionedPropertyTypes = [
     asc ''apartment'', asc ''house'', asc ''condo'', asc ''villa'', asc ''flat'',
     asc ''studio'', asc ''penthouse'', asc ''duplex'']"
definition locationMention :: regex where
  "locationMention =
     Regex (rseqs [ralts [rlit (asc ''location''), rlit (asc ''area''), rlit (asc ''place''),
       rlit (asc ''interested in'')], rlit (asc '' ''), RGrp 1 (rplus (RCls ([(97,
       122)] @ wsRanges @ [(44, 44)])))]) ''i''"
text \<open>
  \<open>patterns.forEach(pattern => { const match = content.match(pattern);
  if (match && match[1]) slot = match[1].trim(); })\<close>: the last pattern that matches with
  a first capture sets the slot.
\<close>

fun lastCapture :: "regex list \<Rightarrow> jsstring \<Rightarrow> jsstring option \<Rightarrow> jsstring option" where
  "lastCapture [] s slot = slot"
| "lastCapture (pattern # rest) s slot =
     lastCapture rest s
       (case jsMatch s pattern of
          None \<Rightarrow> slot
        | Some m \<Rightarrow>
            (case capture m 1 of
               None \<Rightarrow> slot
             | Some g \<Rightarrow> if g = [] then slot else Some (trim g)))"

fun lastMentioned :: "jsstring list \<Rightarrow> jsstring \<Rightarrow> jsstring option \<Rightarrow> jsstring option" where
  "lastMentioned [] s slot = slot"
| "lastMentioned (type # rest) s slot =
     lastMentioned rest s (if jsIncludes (toLowerCase s) type then Some type else slot)"

text \<open>The body of \<open>formattedHistory.forEach\<close> (lines 253-301), for one turn.\<close>

definition readUserTurn :: "jsstring \<Rightarrow> providedInfo \<Rightarrow> providedInfo" where
  "readUserTurn s p =
     \<lparr>provided_name = lastCapture nameResponsePatterns s (provided_name p),
      provided_budget = lastCapture budgetResponsePatterns s (provided_budget p),
      provided_propertyType = lastMentioned mentionedPropertyTypes s (provided_propertyType p),
      provided_preferredLocation = lastCapture [locationMention] s (provided_preferredLocation p)\<rparr>"

definition anyTests :: "regex list \<Rightarrow> jsstring \<Rightarrow> bool" where
  "anyTests patterns s = list_ex (\<lambda>pattern. jsTest pattern s) patterns"

definition scanTurn :: "turn \<Rightarrow> extractedInfo \<Rightarrow> extractedInfo" where
  "scanTurn msg info =
     (case role msg of
        Assistant \<Rightarrow>
          info\<lparr>askedAboutName := askedAboutName info \<or> anyTests nameQuestionPatterns (content msg),
               askedAboutBudget := askedAboutBudget info \<or> anyTests budgetQuestionPatterns (content msg),
               askedAboutLocation :=
                 askedAboutLocation info \<or> anyTests locationQuestionPatterns (content msg),
               askedAboutPropertyType :=
                 askedAboutPropertyType info \<or> anyTests propertyTypeQuestionPatterns (content msg)\<rparr>
      | User \<Rightarrow> info\<lparr>providedInfo := readUserTurn (content msg) (providedInfo info)\<rparr>)"

definition noInfo :: extractedInfo where
  "noInfo =
     \<lparr>askedAboutName = False, askedAboutBudget = False, askedAboutLocation = False,
      askedAboutPropertyType = False,
      providedInfo = \<lparr>provided_name = None, provided_budget = None,
        provided_propertyType = None, provided_preferredLocation = None\<rparr>\<rparr>"

definition extractInfoFromHistory :: "turn list \<Rightarrow> extractedInfo" where
  "extractInfoFromHistory formattedHistory = fold scanTurn formattedHistory noInfo"

section \<open>mistralService: the end of a conversation\<close>

text \<open>The tables of \<open>isConversationEnding\<close> (lines 316-321 and 332-378).\<close>

definition shortEndingPhrases :: "jsstring list" where
  "shortEndingPhrases = [
     asc ''thanks'', asc ''thank you'', asc ''ok'', asc ''okay'', asc ''bye'', asc ''goodbye'',
     asc ''got it'', [2343, 2344, 2381, 2351, 2357, 2366, 2342], [2358, 2369, 2325, 2381, 2352,
     2367, 2351, 2366], [2336, 2368, 2325, 32, 2361, 2376], [2309, 2330, 2381, 2331, 2366],
     [2348, 2366, 2351], [2343, 2344, 2381, 2351, 2357, 2366, 2342], [2310, 2349, 2366, 2352],
     [2336, 2368, 2325, 32, 2310, 2361, 2375], [2348, 2352, 2306], [2694, 2733, 2750, 2736],
     [2727, 2728, 2765, 2735, 2741, 2750, 2726], [2720, 2752, 2709, 32, 2715, 2759], [2744,
     2750, 2736, 2753, 2690]]"
definition endingPhrases :: "regex list" where
  "endingPhrases = [
     Regex (ralts [rlit (asc ''thank you''), rlit (asc ''thanks''),
       rlit (asc ''thank u'')]) ''i'',
     Regex (ralts [rlit (asc ''goodbye''), rlit (asc ''bye''), rlit (asc ''see you''),
       rlit (asc ''farewell'')]) ''i'',
     Regex (ralts [rlit (asc ''that'' @ [39] @ asc ''s all''), rlit (asc ''that is all''),
       rlit (asc ''no more''), rlit (asc ''finished'')]) ''i'',
     Regex (rlit (asc ''no more questions'')) ''i'',
     Regex (ralts [rlit (asc ''got it''), rlit (asc ''understood''),
       rlit (asc ''i understand'')]) ''i'',
     Regex (ralts [rlit (asc ''ok''), rlit (asc ''okay''), rlit (asc ''fine''),
       rlit (asc ''great'')]) ''i'',
     Regex (ralts [rlit (asc ''that'' @ [39] @ asc ''s helpful''), rlit (asc ''that helps''),
       rlit (asc ''clear now'')]) ''i'',
     Regex (ralts [rlit (asc ''appreciate''), rlit (asc ''appreciate it''),
       rlit (asc ''appreciate your'')]) ''i'',
     Regex (ralts [rlit [2343, 2344, 2381, 2351, 2357, 2366, 2342], rlit [2358, 2369, 2325,
       2381, 2352, 2367, 2351, 2366], rlit [2341, 2376, 2306, 2325, 2381, 2360], rlit [2310,
       2349, 2366, 2352]]) ''i'',
     Regex (ralts [rlit [2309, 2354, 2357, 2367, 2342, 2366], rlit [2348, 2366, 2351],
       rlit [2327, 2369, 2337, 32, 2348, 2366, 2351], rlit [2347, 2367, 2352, 32, 2350, 2367,
       2354, 2375, 2306, 2327, 2375]]) ''i'',
     Regex (ralts [rlit [2348, 2360, 32, 2311, 2340, 2344, 2366, 32, 2361, 2368], rlit [2351,
       2361, 2368, 32, 2360, 2348, 32, 2361, 2376], rlit [2361, 2379, 32, 2327, 2351,
       2366]]) ''i'',
     Regex (ralts [rlit [2325, 2379, 2312, 32, 2324, 2352, 32, 2360, 2357, 2366, 2354, 32,
       2344, 2361, 2368, 2306], rlit [2324, 2352, 32, 2325, 2369, 2331, 32, 2344, 2361, 2368,
       2306]]) ''i'',
     Regex (ralts [rlit [2360, 2350, 2333, 32, 2327, 2351, 2366], rlit [2336, 2368, 2325, 32,
       2361, 2376], rlit [2360, 2350, 2333, 32, 2350, 2375, 2306, 32, 2310, 2351, 2366]]) ''i'',
     Regex (ralts [rlit [2323, 2325, 2375], rlit [2309, 2330, 2381, 2331, 2366], rlit [2336,
       2368, 2325], rlit [2348, 2361, 2369, 2340, 32, 2309, 2330, 2381, 2331, 2366]]) ''i'',
     Regex (ralts [rlit [2350, 2342, 2342, 32, 2350, 2367, 2354, 2368], rlit [2360, 2381,
       2346, 2359, 2381, 2335, 32, 2361, 2376], rlit [2360, 2350, 2333, 32, 2350, 2375, 2306,
       32, 2310, 32, 2327, 2351, 2366]]) ''i'',
     Regex (ralts [rlit [2343, 2344, 2381, 2351, 2357, 2366, 2342], rlit [2310, 2349, 2366,
       2352], rlit [2341, 2305, 2325, 2381, 2351, 2370]]) ''i'',
     Regex (ralts [rlit [2344, 2367, 2352, 2379, 2346], rlit [2348, 2366, 2351], rlit [2346,
       2369, 2344, 2381, 2361, 2366, 32, 2349, 2375, 2335, 2370]]) ''i'',
     Regex (ralts [rlit [2348, 2360, 32, 2319, 2357, 2338, 2375, 2330], rlit [2311, 2340,
       2325, 2375, 2330], rlit [2333, 2366, 2354, 2375]]) ''i'',
     Regex (rlit [2310, 2339, 2326, 2368, 32, 2346, 2381, 2352, 2358, 2381, 2344, 32, 2344,
       2366, 2361, 2368, 2340]) ''i'',
     Regex (ralts [rlit [2360, 2350, 2332, 2354, 2375], rlit [2348, 2352, 2379, 2348, 2352],
       rlit [2336, 2368, 2325, 32, 2310, 2361, 2375]]) ''i'',
     Regex (ralts [rlit [2323, 2325, 2375], rlit [2331, 2366, 2344], rlit [2348, 2352,
       2306]]) ''i'',
     Regex (ralts [rlit [2350, 2342, 2340, 32, 2333, 2366, 2354, 2368], rlit [2360, 2381,
       2346, 2359, 2381, 2335, 32, 2310, 2361, 2375]]) ''i'',
     Regex (ralts [rlit [2694, 2733, 2750, 2736], rlit [2727, 2728, 2765, 2735, 2741, 2750,
       2726], rlit [2725, 2759, 2690, 2709, 2765, 2735, 2753]]) ''i'',
     Regex (ralts [rlit [2694, 2741, 2716, 2763], rlit [2732, 2750, 2735], rlit [2731, 2736,
       2752, 32, 2734, 2739, 2752, 2742, 2753, 2690]]) ''i'',
     Regex (ralts [rlit [2732, 2744, 32, 2694, 2719, 2738, 2753, 2690, 32, 2716], rlit [2730,
       2754, 2736, 2753, 2690, 32, 2725, 2735, 2753, 2690]]) ''i'',
     Regex (rlit [2741, 2727, 2753, 32, 2730, 2765, 2736, 2742, 2765, 2728, 2763, 32, 2728,
       2725, 2752]) ''i'',
     Regex (ralts [rlit [2744, 2734, 2716, 2750, 2735, 2753, 2690], rlit [2732, 2736, 2750,
       2732, 2736], rlit [2720, 2752, 2709, 32, 2715, 2759]]) ''i'',
     Regex (ralts [rlit [2707, 2709, 2759], rlit [2744, 2750, 2736, 2753, 2690], rlit [2720,
       2752, 2709]]) ''i'',
     Regex (ralts [rlit [2734, 2726, 2726, 32, 2734, 2739, 2752], rlit [2744, 2765, 2730,
       2743, 2765, 2719, 32, 2715, 2759]]) ''i'',
     Regex (ralts [rlit [2471, 2472, 2509, 2479, 2476, 2494, 2470], rlit [2438, 2474, 2472,
       2494, 2453, 2503, 32, 2471, 2472, 2509, 2479, 2476, 2494, 2470]]) ''i'',
     Regex (ralts [rlit [2476, 2495, 2470, 2494, 2479, 2492], rlit [2475, 2495, 2480, 2503,
       32, 2470, 2503, 2454, 2494, 32, 2489, 2476, 2503]]) ''i'',
     Regex (ralts [rlit [2447, 2463, 2494, 2439, 32, 2488, 2476], rlit [2486, 2503,
       2487]]) ''i'',
     Regex (rlit [2438, 2480, 32, 2453, 2507, 2472, 32, 2474, 2509, 2480, 2486, 2509, 2472,
       32, 2472, 2503, 2439]) ''i'',
     Regex (ralts [rlit [2476, 2497, 2461, 2503, 2459, 2495], rlit [2464, 2495, 2453, 32,
       2438, 2459, 2503]]) ''i'',
     Regex (ralts [rlit [2451, 2453, 2503], rlit [2477, 2494, 2482, 2507]]) ''i'',
     Regex (ralts [rlit [2488, 2494, 2489, 2494, 2479, 2509, 2479, 32, 2474, 2503, 2479, 2492,
       2503, 2459, 2495], rlit [2474, 2480, 2495, 2487, 2509, 2453, 2494, 2480]]) ''i'']"
text \<open>
  \<open>isConversationEnding(message)\<close> (lines 307-393), for a message that is a string.
\<close>

definition isConversationEnding :: "jsstring \<Rightarrow> bool" where
  "isConversationEnding msg =
     (if msg = [] then False
      else
        let normalizedMessage = toLowerCase (trim msg) in
        if length (splitSpaces normalizedMessage) \<le> 2 \<and>
           list_ex (\<lambda>phrase. normalizedMessage = phrase \<or> jsIncludes normalizedMessage phrase)
             shortEndingPhrases
        then True
        else
          let isEnding = list_ex (\<lambda>phrase. jsMatch normalizedMessage phrase \<noteq> None) endingPhrases;
              isShortNonQuestion =
                (length normalizedMessage < 15 \<and> \<not> jsIncludes normalizedMessage (asc ''?''))
          in isEnding \<or> isShortNonQuestion)"

section \<open>mistralService: the final response\<close>

text \<open>The patterns of \<open>appendSearchResults\<close> (lines 517-642), in the order of the source.\<close>

definition whiteSpaceRuns :: regex where
  "whiteSpaceRuns =
     Regex (rplus (RCls wsRanges)) ''g''"
definition trailingQuestions :: regex where
  "trailingQuestions =
     Regex (rseqs [RStar (RCls wsRanges), rplus (RGrp 1 (rseqs [RNot [(46, 46), (33, 33), (63,
       63)], RStar (RCls wsRanges), rlit (asc ''?''), RStar (RCls wsRanges)])), REnd]) ''''"
definition listedQuestions :: regex where
  "listedQuestions =
     Regex (rseqs [RGrp 1 (ralts [rseqs [RCls [(48, 57)], rlit (asc ''.'')], rlit [8226],
       rlit (asc ''*''), rlit (asc ''-'')]), RStar (RCls wsRanges),
       RGrp 2 (rseqs [rplus (RNot [(10, 10), (46, 46)]), rlit (asc ''?'')]),
       RStar (RCls wsRanges)]) ''g''"
definition standaloneQuestions :: regex where
  "standaloneQuestions =
     Regex (rseqs [rplus (RCls wsRanges), RGrp 1 (rseqs [RCls [(65, 90)], rplus (RNot [(46,
       46), (33, 33), (63, 63)]), rlit (asc ''?'')]), rplus (RCls wsRanges)]) ''g''"
definition questionPatterns :: "regex list" where
  "questionPatterns = [
     Regex (rseqs [rlit (asc ''would you like ''), RGrp 1 (ralts [rlit (asc ''to''),
       rlit (asc ''me to'')]), rlit (asc '' ''), rplus (RNot [(46, 46), (63, 63), (33, 33)]),
       ropt (RChr 63)]) ''gi'',
     Regex (rseqs [rlit (asc ''do you want ''), RGrp 1 (ralts [rlit (asc ''to''),
       rlit (asc ''me to'')]), rlit (asc '' ''), rplus (RNot [(46, 46), (63, 63), (33, 33)]),
       ropt (RChr 63)]) ''gi'',
     Regex (rseqs [rlit (asc ''can I help you ''), rplus (RNot [(46, 46), (63, 63), (33,
       33)]), ropt (RChr 63)]) ''gi'',
     Regex (rseqs [rlit (asc ''are you interested in ''), rplus (RNot [(46, 46), (63, 63),
       (33, 33)]), ropt (RChr 63)]) ''gi'',
     Regex (rseqs [rlit (asc ''shall we ''), rplus (RNot [(46, 46), (63, 63), (33, 33)]),
       ropt (RChr 63)]) ''gi'',
     Regex (rseqs [rlit (asc ''how about ''), rplus (RNot [(46, 46), (63, 63), (33, 33)]),
       ropt (RChr 63)]) ''gi'',
     Regex (rseqs [rlit (asc ''what ''), RGrp 1 (ralts [rlit (asc ''else''),
       rlit (asc ''other''), rlit (asc ''more'')]), rlit (asc '' ''), rplus (RNot [(46, 46),
       (63, 63), (33, 33)]), ropt (RChr 63)]) ''gi'',
     Regex (rseqs [rlit (asc ''is there anything else ''), rplus (RNot [(46, 46), (63, 63),
       (33, 33)]), ropt (RChr 63)]) ''gi'',
     Regex (rseqs [rlit [2325, 2381, 2351, 2366, 32, 2310, 2346, 32], rplus anyChar, rlit [32,
       2348, 2340, 2366, 2344, 2366, 32, 2330, 2366, 2361, 2375, 2306, 2327, 2375],
       ropt (RChr 63)]) ''g'',
     Regex (rseqs [rlit [2310, 2346, 32], rplus anyChar, rlit [32, 2325, 2375, 32, 2348, 2366,
       2352, 2375, 32, 2350, 2375, 2306, 32, 2325, 2381, 2351, 2366, 32, 2360, 2379, 2330, 2340,
       2375, 32, 2361, 2376, 2306], ropt (RChr 63)]) ''g'',
     Regex (rseqs [rlit [2325, 2381, 2351, 2366, 32, 2310, 2346, 2325, 2379, 32],
       rplus anyChar, rlit [32, 2330, 2366, 2361, 2367, 2319], ropt (RChr 63)]) ''g'',
     Regex (rseqs [rlit [2325, 2381, 2351, 2366, 32, 2350, 2376, 2306, 32, 2310, 2346, 2325,
       2368, 32, 2324, 2352, 32, 2360, 2361, 2366, 2351, 2340, 2366, 32, 2325, 2352, 32, 2360,
       2325, 2340, 2366, 32, 2361, 2370, 2305], ropt (RChr 63)]) ''g'',
     Regex (rseqs [rlit [2325, 2381, 2351, 2366, 32, 2310, 2346, 32], rplus anyChar, rlit [32,
       2332, 2366, 2344, 2344, 2366, 32, 2330, 2366, 2361, 2340, 2375, 32, 2361, 2376, 2306],
       ropt (RChr 63)]) ''g'',
     Regex (rseqs [rlit [2325, 2381, 2351, 2366, 32, 2310, 2346, 2325, 2375, 32, 2346, 2366,
       2360, 32], rplus anyChar, rlit [32, 2361, 2376], ropt (RChr 63)]) ''g'',
     Regex (rseqs [rlit [2350, 2376, 2306, 32, 2310, 2346, 2325, 2368, 32, 2325, 2376, 2360,
       2375, 32, 2360, 2361, 2366, 2351, 2340, 2366, 32, 2325, 2352, 32, 2360, 2325, 2340, 2366,
       32, 2361, 2370, 2305], ropt (RChr 63)]) ''g'',
     Regex (rseqs [rlit [2310, 2346, 2325, 2379, 32, 2324, 2352, 32, 2325, 2381, 2351, 2366,
       32, 2332, 2366, 2344, 2325, 2366, 2352, 2368, 32, 2330, 2366, 2361, 2367, 2319],
       ropt (RChr 63)]) ''g'',
     Regex (rseqs [rlit [2325, 2381, 2351, 2366, 32, 2310, 2346, 32], rplus anyChar, rlit [32,
       2326, 2379, 2332, 32, 2352, 2361, 2375, 32, 2361, 2376, 2306], ropt (RChr 63)]) ''g'',
     Regex (rseqs [rlit [2325, 2381, 2351, 2366, 32, 2310, 2346, 32], rplus anyChar, rlit [32,
       2346, 2360, 2306, 2342, 32, 2325, 2352, 2375, 2306, 2327, 2375], ropt (RChr 63)]) ''g'',
     Regex (rseqs [rlit [2340, 2369, 2350, 2381, 2361, 2366, 2354, 2366, 32], rplus anyChar,
       rlit [32, 2310, 2357, 2337, 2375, 2354, 32, 2325, 2366], ropt (RChr 63)]) ''g'',
     Regex (rseqs [rlit [2350, 2368, 32, 2340, 2369, 2350, 2381, 2361, 2366, 2354, 2366, 32],
       rplus anyChar, rlit [32, 2350, 2342, 2340, 32, 2325, 2352, 2370, 32, 2358, 2325, 2340,
       2379, 32, 2325, 2366], ropt (RChr 63)]) ''g'',
     Regex (rseqs [rlit [2340, 2369, 2350, 2381, 2361, 2366, 2354, 2366, 32], rplus anyChar,
       rlit [32, 2361, 2357, 2375, 32, 2310, 2361, 2375, 32, 2325, 2366], ropt (RChr 63)]) ''g'',
     Regex (rseqs [rlit [2742, 2753, 2690, 32, 2724, 2734, 2759, 32], rplus anyChar, rlit [32,
       2709, 2736, 2741, 2750, 32, 2734, 2750, 2690, 2711, 2763, 32, 2715, 2763],
       ropt (RChr 63)]) ''g'',
     Regex (rseqs [rlit [2745, 2753, 2690, 32, 2724, 2734, 2728, 2759, 32], rplus anyChar,
       rlit [32, 2734, 2726, 2726, 32, 2709, 2736, 2752, 32, 2742, 2709, 2753, 2690],
       ropt (RChr 63)]) ''g'',
     Regex (rseqs [rlit [2724, 2734, 2728, 2759, 32], rplus anyChar, rlit [32, 2716, 2763,
       2696, 2703, 32, 2715, 2759], ropt (RChr 63)]) ''g'']"
definition questionMark :: regex where
  "questionMark =
     Regex (rlit (asc ''?'')) ''g''"
definition closingPhrase :: regex where
  "closingPhrase =
     Regex (ralts [rlit (asc ''thank you''), rlit (asc ''thanks''), rlit (asc ''pleasure''),
       rlit (asc ''happy to help''), rlit (asc ''see you'')]) ''i''"
definition blankLines :: regex where
  "blankLines =
     Regex (ratleast 3 (RChr 10)) ''g''"
definition spaceRuns :: regex where
  "spaceRuns =
     Regex (ratleast 2 (RCls wsRanges)) ''g''"
definition shortFragments :: regex where
  "shortFragments =
     Regex (rseqs [RStar (RCls wsRanges), rlit (asc ''.''), rbetween 1 20 (RNot [(46, 46)]),
       rlit (asc ''.'')]) ''g''"
definition closingLine :: jsstring where
  "closingLine =
     [10,
     10] @ asc ''I am pleased to assist you. If you have any other questions in the future, please feel free to ask.''"

definition summaryHeader :: jsstring where
  "summaryHeader =
     [10, 10] @ asc ''### '' @ [55357,
     56522] @ asc '' Latest Real Estate Information ###'' @ [10]"

text \<open>
  The digest of the results (lines 531-554); the label of the source is in English for
  three results or more (line 543) and in Hindi for fewer (line 552).
\<close>

definition viewSourceLabel :: jsstring where
  "viewSourceLabel = asc ''[View Source](''"

definition hindiSourceLabel :: jsstring where
  "hindiSourceLabel =
     [91, 2360, 2381, 2352, 2379, 2340, 32, 2342, 2375, 2326, 2375, 2306] @ asc ''](''"

definition clean :: "jsstring \<Rightarrow> jsstring" where
  "clean s = trim (jsReplace s whiteSpaceRuns (asc '' ''))"

fun summaryItems :: "jsstring \<Rightarrow> nat \<Rightarrow> 'a listing_scheme list \<Rightarrow> jsstring" where
  "summaryItems label i [] = []"
| "summaryItems label i (r # rest) =
     [10] @ asc ''**'' @ showNat (i + 1) @ asc ''. '' @ clean (title r) @ asc ''**'' @ [10] @
     clean (snippet r) @ [10] @
     label @ link r @ asc '')'' @ [10] @
     summaryItems label (i + 1) rest"

definition resultsSummary :: "'a listing_scheme list \<Rightarrow> jsstring" where
  "resultsSummary searchResults =
     summaryHeader @
     (if length searchResults \<ge> 3
      then summaryItems viewSourceLabel 0 (take 3 searchResults)
      else summaryItems hindiSourceLabel 0 searchResults)"

text \<open>The cleaning of the generated text (lines 559-635).\<close>

definition removeAll :: "regex list \<Rightarrow> jsstring \<Rightarrow> jsstring" where
  "removeAll patterns s = fold (\<lambda>pattern cleaned. jsReplace cleaned pattern []) patterns s"

definition politeClosing :: "jsstring \<Rightarrow> jsstring" where
  "politeClosing cleaned =
     (let removed = removeAll questionPatterns cleaned
      in if jsMatch removed closingPhrase = None then removed @ closingLine else removed)"

definition cleanResponse :: "jsstring \<Rightarrow> bool \<Rightarrow> jsstring" where
  "cleanResponse aiResponse isEndingConversation =
     (let c1 = jsReplace aiResponse trailingQuestions (asc ''.'');
          c2 = jsReplace c1 listedQuestions [];
          c3 = jsReplace c2 standaloneQuestions (asc ''. '');
          c4 = removeAll questionPatterns c3;
          c5 = jsReplace c4 questionMark (asc ''.'');
          c6 = (if isEndingConversation then politeClosing c5 else c5);
          c7 = jsReplace c6 blankLines [10, 10];
          c8 = jsReplace c7 spaceRuns (asc '' '');
          c9 = trim c8
      in jsReplace c9 shortFragments (asc ''.''))"

text \<open>
  \<open>appendSearchResults(aiResponse, searchResults, userMessage)\<close>; the list of results is
  \<open>None\<close> when it is \<open>null\<close> or not an array. The language of the user message is
  detected and never used.
\<close>

definition appendSearchResults ::
    "jsstring \<Rightarrow> 'a listing_scheme list option \<Rightarrow> jsstring \<Rightarrow> jsstring" where
  "appendSearchResults aiResponse searchResults userMessage =
     (case searchResults of
        None \<Rightarrow> aiResponse
      | Some results \<Rightarrow>
          if length results = 0 then aiResponse
          else cleanResponse aiResponse (isConversationEnding userMessage) @ resultsSummary results)"

section \<open>Evaluation of the model on concrete inputs\<close>

lemma rtimes_numeral: "rtimes (numeral k) r q = RSeq r (rtimes (pred_numeral k) r q)"
  by (simp add: numeral_eq_Suc)

lemma rupto_numeral: "rupto (numeral k) r = ropt (RSeq r (rupto (pred_numeral k) r))"
  by (simp add: numeral_eq_Suc)

lemmas regex_eval = asc_def jsTest_def jsMatch_def capture_def exec_def ratleast_def rbetween_def
  rplus_def ropt_def rtimes_numeral rupto_numeral unitEq_def classHas_def inRanges_def canon_def
  lowerUnit_def anyChar_def digitR_def wordR_def wsRanges_def jsReplace_def replaceFirst_def
  replaceAll.simps

lemmas string_eval = asc_def toLowerCase_def lowerUnit_def trim_def isSpace_def inRanges_def
  wsRanges_def

section \<open>Facts about the matcher\<close>

lemma rmatch_RStar_nonempty: "rmatch ci (RStar a) s c \<noteq> []"
  by simp

lemma rmatch_RSeq_nonempty: "rmatch ci (RSeq a b) s c \<noteq> [] \<Longrightarrow> rmatch ci a s c \<noteq> []"
  by auto

lemma rmatch_run3:
  "rmatch ci (ratleast 3 (RCls rs)) s c \<noteq> [] \<longleftrightarrow>
     (\<exists>x y z t. s = x # y # z # t \<and> classHas ci rs x \<and> classHas ci rs y \<and> classHas ci rs z)"
proof (cases s)
  case Nil
  then show ?thesis by (simp add: ratleast_def eval_nat_numeral)
next
  case (Cons x s1)
  note s = this
  show ?thesis
  proof (cases s1)
    case Nil
    with s show ?thesis by (simp add: ratleast_def eval_nat_numeral)
  next
    case (Cons y s2)
    note s1 = this
    show ?thesis
    proof (cases s2)
      case Nil
      with s s1 show ?thesis by (simp add: ratleast_def eval_nat_numeral)
    next
      case (Cons z t)
      with s s1 show ?thesis
        by (simp add: ratleast_def eval_nat_numeral rmatch_RStar_nonempty del: rmatch.simps(7))
    qed
  qed
qed

lemma execFrom_None_iff:
  "execFrom ci r i s = None \<longleftrightarrow> (\<forall>t. suffix t s \<longrightarrow> rmatch ci r t [] = [])"
proof (induction s arbitrary: i)
  case Nil
  then show ?case by (cases "rmatch ci r [] []") auto
next
  case (Cons x xs)
  show ?case
  proof (cases "rmatch ci r (x # xs) []")
    case Nil
    then show ?thesis using Cons.IH [of "Suc i"]
      by (auto simp: suffix_Cons)
  next
    case (Cons m ms)
    then show ?thesis by (auto simp: suffix_Cons)
  qed
qed

lemma jsTest_iff:
  "jsTest rx s \<longleftrightarrow> (\<exists>t. suffix t s \<and> rmatch (ignoreCase rx) (body rx) t [] \<noteq> [])"
  by (auto simp: jsTest_def exec_def execFrom_None_iff)

section \<open>Properties of the language service\<close>

lemma hasRun_iff:
  "hasRun lo hi s \<longleftrightarrow>
     (\<exists>x y z t. suffix (x # y # z # t) s \<and> classHas False [(lo, hi)] x \<and>
        classHas False [(lo, hi)] y \<and> classHas False [(lo, hi)] z)"
proof (induction lo hi s rule: hasRun.induct)
  case (1 lo hi x y z t)
  show ?case
    apply (simp only: hasRun.simps 1 suffix_Cons [of _ x])
    apply (auto simp: classHas_def inRanges_def)
    done
qed (auto simp: suffix_Cons)

lemma jsTest_scriptRun: "jsTest (scriptRun lo hi) s = hasRun lo hi s"
  unfolding jsTest_iff hasRun_iff scriptRun_def
  by (simp add: rmatch_run3) blast

lemma classHas_devanagari: "classHas True [(2304, 2431)] c = classHas False [(2304, 2431)] c"
  by (auto simp: classHas_def inRanges_def canon_def lowerUnit_def)

lemma marathi_flags: "ignoreCase marathiPattern"
  by (simp add: marathiPattern_def)

lemma marathi_body: "\<exists>b. body marathiPattern = RSeq (ratleast 3 (RCls [(2304, 2431)])) b"
  by (simp add: marathiPattern_def)

lemma marathi_needs_run:
  assumes "jsTest marathiPattern s"
  shows "jsTest (scriptRun 0x0900 0x097F) s"
proof -
  from assms obtain t where t: "suffix t s"
    and m: "rmatch True (body marathiPattern) t [] \<noteq> []"
    unfolding jsTest_iff using marathi_flags by auto
  from marathi_body obtain b where "body marathiPattern = RSeq (ratleast 3 (RCls [(2304, 2431)])) b" ..
  with m have "rmatch True (ratleast 3 (RCls [(2304, 2431)])) t [] \<noteq> []"
    using rmatch_RSeq_nonempty [of True "ratleast 3 (RCls [(2304, 2431)])" b t "[]"] by simp
  then have "rmatch False (ratleast 3 (RCls [(2304, 2431)])) t [] \<noteq> []"
    by (simp only: rmatch_run3 classHas_devanagari)
  with t have "\<exists>t. suffix t s \<and> rmatch False (ratleast 3 (RCls [(2304, 2431)])) t [] \<noteq> []"
    by blast
  then show ?thesis
    unfolding jsTest_iff scriptRun_def by simp
qed

lemma codes_not_mr:
  "asc ''en'' \<noteq> asc ''mr''" "asc ''hi'' \<noteq> asc ''mr''" "asc ''gu'' \<noteq> asc ''mr''"
  "asc ''bn'' \<noteq> asc ''mr''" "asc ''ta'' \<noteq> asc ''mr''" "asc ''te'' \<noteq> asc ''mr''"
  "asc ''kn'' \<noteq> asc ''mr''" "asc ''ml'' \<noteq> asc ''mr''" "asc ''pa'' \<noteq> asc ''mr''"
  "asc ''ur'' \<noteq> asc ''mr''"
  by (simp_all add: asc_def)

lemma firstLanguage_not_mr: "firstLanguage languagePatterns s \<noteq> asc ''mr''"
proof (cases "jsTest marathiPattern s")
  case True
  then have "jsTest (scriptRun 0x0900 0x097F) s" by (rule marathi_needs_run)
  then show ?thesis
    by (simp add: languagePatterns_def codes_not_mr)
next
  case False
  then show ?thesis
    by (simp add: languagePatterns_def codes_not_mr)
qed

lemma in_set_dropWhile: "x \<in> set s \<Longrightarrow> \<not> P x \<Longrightarrow> x \<in> set (dropWhile P s)"
  by (induction s) auto

lemma in_set_nonempty: "x \<in> set l \<Longrightarrow> l \<noteq> []"
  by auto

lemma trim_nonempty: "x \<in> set s \<Longrightarrow> \<not> isSpace x \<Longrightarrow> trim s \<noteq> []"
proof -
  assume a: "x \<in> set s" "\<not> isSpace x"
  then have "x \<in> set (dropWhile isSpace s)" by (rule in_set_dropWhile)
  then have "x \<in> set (rev (dropWhile isSpace s))" by simp
  from this a(2) have "x \<in> set (dropWhile isSpace (rev (dropWhile isSpace s)))"
    by (rule in_set_dropWhile)
  then have "dropWhile isSpace (rev (dropWhile isSpace s)) \<noteq> []"
    by (rule in_set_nonempty)
  then show ?thesis by (simp only: trim_def rev_is_Nil_conv not_False_eq_True)
qed

lemma hasRun_member: "hasRun lo hi s \<Longrightarrow> \<exists>x \<in> set s. lo \<le> x \<and> x \<le> hi"
  by (induction lo hi s rule: hasRun.induct) auto

lemma block_not_space:
  "(langCode, lo, hi) \<in> set scriptBlocks \<Longrightarrow> lo \<le> x \<Longrightarrow> x \<le> hi \<Longrightarrow> \<not> isSpace x"
  by (auto simp: scriptBlocks_def isSpace_def inRanges_def wsRanges_def)

lemma hasRun_not_blank:
  assumes "(langCode, lo, hi) \<in> set scriptBlocks" "hasRun lo hi s"
  shows "s \<noteq> [] \<and> trim s \<noteq> []"
proof -
  from assms(2) obtain x where x: "x \<in> set s" "lo \<le> x" "x \<le> hi"
    using hasRun_member by blast
  with assms(1) have "\<not> isSpace x" using block_not_space by blast
  with x(1) have "trim s \<noteq> []" using trim_nonempty by blast
  with x(1) show ?thesis by auto
qed


lemma codes_distinct:
  "distinct (map fst scriptBlocks)" "distinct (map fst languagePatterns)"
  by (simp_all add: scriptBlocks_def languagePatterns_def asc_def)

section \<open>Facts about strings\<close>

lemma startsWith_iff: "startsWith s p \<longleftrightarrow> prefix p s"
  by (induction s p rule: startsWith.induct) auto

lemma jsIncludes_iff: "jsIncludes s sub \<longleftrightarrow> (\<exists>a b. s = a @ sub @ b)"
proof (induction s)
  case Nil
  then show ?case by auto
next
  case (Cons c cs)
  show ?case
  proof
    assume "jsIncludes (c # cs) sub"
    then consider "prefix sub (c # cs)" | "jsIncludes cs sub"
      by (auto simp: startsWith_iff)
    then show "\<exists>a b. c # cs = a @ sub @ b"
    proof cases
      case 1
      then obtain b where "c # cs = sub @ b" by (auto simp: prefix_def)
      then have "c # cs = [] @ sub @ b" by simp
      then show ?thesis by blast
    next
      case 2
      with Cons.IH obtain a b where "cs = a @ sub @ b" by blast
      then have "c # cs = (c # a) @ sub @ b" by simp
      then show ?thesis by blast
    qed
  next
    assume "\<exists>a b. c # cs = a @ sub @ b"
    then obtain a b where ab: "c # cs = a @ sub @ b" by blast
    show "jsIncludes (c # cs) sub"
    proof (cases a)
      case Nil
      with ab have "prefix sub (c # cs)" by (simp add: prefix_def)
      then show ?thesis by (simp add: startsWith_iff)
    next
      case (Cons x a')
      with ab have "cs = a' @ sub @ b" by simp
      with Cons.IH have "jsIncludes cs sub" by blast
      then show ?thesis by simp
    qed
  qed
qed


lemma jsIncludes_appended: "jsIncludes (s @ sub @ t) sub"
  unfolding jsIncludes_iff by blast



section \<open>Properties of the enhanced query\<close>


















section \<open>Properties of the history of a conversation\<close>

lemma asked_step:
  "askedAboutName (scanTurn m info) =
     (askedAboutName info \<or> (role m = Assistant \<and> anyTests nameQuestionPatterns (content m)))"
  "askedAboutBudget (scanTurn m info) =
     (askedAboutBudget info \<or> (role m = Assistant \<and> anyTests budgetQuestionPatterns (content m)))"
  "askedAboutLocation (scanTurn m info) =
     (askedAboutLocation info \<or> (role m = Assistant \<and> anyTests locationQuestionPatterns (content m)))"
  "askedAboutPropertyType (scanTurn m info) =
     (askedAboutPropertyType info \<or>
      (role m = Assistant \<and> anyTests propertyTypeQuestionPatterns (content m)))"
  by (cases "role m"; simp add: scanTurn_def)+

lemma asked_name_fold:
  "askedAboutName (fold scanTurn turns info) =
     (askedAboutName info \<or>
      (\<exists>m \<in> set turns. role m = Assistant \<and> anyTests nameQuestionPatterns (content m)))"
  by (induction turns arbitrary: info) (auto simp: asked_step)

lemma asked_budget_fold:
  "askedAboutBudget (fold scanTurn turns info) =
     (askedAboutBudget info \<or>
      (\<exists>m \<in> set turns. role m = Assistant \<and> anyTests budgetQuestionPatterns (content m)))"
  by (induction turns arbitrary: info) (auto simp: asked_step)

lemma asked_location_fold:
  "askedAboutLocation (fold scanTurn turns info) =
     (askedAboutLocation info \<or>
      (\<exists>m \<in> set turns. role m = Assistant \<and> anyTests locationQuestionPatterns (content m)))"
  by (induction turns arbitrary: info) (auto simp: asked_step)

lemma asked_type_fold:
  "askedAboutPropertyType (fold scanTurn turns info) =
     (askedAboutPropertyType info \<or>
      (\<exists>m \<in> set turns. role m = Assistant \<and> anyTests propertyTypeQuestionPatterns (content m)))"
  by (induction turns arbitrary: info) (auto simp: asked_step)

section \<open>Properties of the final response\<close>

lemma replaceFirst_set: "set (replaceFirst ci r rep s) \<subseteq> set s \<union> set rep"
proof (cases "execFrom ci r 0 s")
  case None
  then show ?thesis by (simp add: replaceFirst_def)
next
  case (Some m)
  have "set (take (fst m) s) \<subseteq> set s" by (rule set_take_subset)
  moreover have "set (drop (fst m + fst (snd m)) s) \<subseteq> set s" by (rule set_drop_subset)
  ultimately show ?thesis using Some by (auto simp: replaceFirst_def)
qed

lemma replaceAll_set: "set (replaceAll ci r rep s) \<subseteq> set s \<union> set rep"
proof (induction ci r rep s rule: replaceAll.induct)
  case (1 ci r rep s)
  show ?case
  proof (cases "execFrom ci r 0 s")
    case None
    then show ?thesis by (subst replaceAll.simps) simp
  next
    case (Some m)
    have t: "set (take (fst m) s) \<subseteq> set s" by (rule set_take_subset)
    show ?thesis
    proof (cases "fst (snd m) = 0")
      case True
      note z = this
      show ?thesis
      proof (cases "fst m < length s")
        case True
        have a: "set (take 1 (drop (fst m) s)) \<subseteq> set s"
          using set_take_subset set_drop_subset by fast
        have b: "set (drop (Suc (fst m)) s) \<subseteq> set s" by (rule set_drop_subset)
        from "1.IH"(1) [OF Some z True]
        have "set (replaceAll ci r rep (drop (Suc (fst m)) s)) \<subseteq> set s \<union> set rep"
          using b by blast
        with t a have "set (take (fst m) s @ rep @ take 1 (drop (fst m) s) @
            replaceAll ci r rep (drop (Suc (fst m)) s)) \<subseteq> set s \<union> set rep"
          by auto
        with Some z True show ?thesis by (subst replaceAll.simps) simp
      next
        case False
        with t have "set (take (fst m) s @ rep @ []) \<subseteq> set s \<union> set rep"
          by auto
        with Some z False show ?thesis by (subst replaceAll.simps) simp
      qed
    next
      case False
      have b: "set (drop (fst m + fst (snd m)) s) \<subseteq> set s" by (rule set_drop_subset)
      from "1.IH"(2) [OF Some False]
      have "set (replaceAll ci r rep (drop (fst m + fst (snd m)) s)) \<subseteq> set s \<union> set rep"
        using b by blast
      with t have "set (take (fst m) s @ rep @
          replaceAll ci r rep (drop (fst m + fst (snd m)) s)) \<subseteq> set s \<union> set rep"
        by auto
      with Some False show ?thesis by (subst replaceAll.simps) simp
    qed
  qed
qed

lemma jsReplace_set: "set (jsReplace s rx rep) \<subseteq> set s \<union> set rep"
  by (simp add: jsReplace_def replaceFirst_set replaceAll_set)

lemma jsReplace_keeps_out: "c \<notin> set s \<Longrightarrow> c \<notin> set rep \<Longrightarrow> c \<notin> set (jsReplace s rx rep)"
  using jsReplace_set by fastforce

lemma trim_set: "set (trim s) \<subseteq> set s"
proof -
  have "set (dropWhile isSpace (rev (dropWhile isSpace s))) \<subseteq> set (rev (dropWhile isSpace s))"
    using set_dropWhileD by fast
  moreover have "set (dropWhile isSpace s) \<subseteq> set s"
    using set_dropWhileD by fast
  ultimately show ?thesis by (auto simp: trim_def)
qed

lemma trim_keeps_out: "c \<notin> set s \<Longrightarrow> c \<notin> set (trim s)"
  using trim_set by fast

lemma exec_no_mark: "63 \<notin> set s \<Longrightarrow> execFrom False (RChr 63) i s = None"
  by (induction s arbitrary: i) (auto simp: unitEq_def)

lemma exec_first_mark:
  "63 \<notin> set a \<Longrightarrow> execFrom False (RChr 63) i (a @ 63 # b) = Some (i + length a, 1, [])"
  by (induction a arbitrary: i) (auto simp: unitEq_def)

lemma replaceAll_mark:
  "63 \<notin> set rep \<Longrightarrow> 63 \<notin> set (replaceAll False (RChr 63) rep s)"
proof (induction "length s" arbitrary: s rule: less_induct)
  case less
  show ?case
  proof (cases "63 \<in> set s")
    case False
    then have "replaceAll False (RChr 63) rep s = s"
      by (subst replaceAll.simps) (simp add: exec_no_mark)
    with False show ?thesis by simp
  next
    case True
    then obtain a b where s: "s = a @ 63 # b" and a: "63 \<notin> set a"
      by (meson split_list_first)
    have e: "execFrom False (RChr 63) 0 s = Some (length a, 1, [])"
      unfolding s using exec_first_mark [OF a, of 0 b] by simp
    have "replaceAll False (RChr 63) rep s = a @ rep @ replaceAll False (RChr 63) rep b"
      by (subst replaceAll.simps) (simp add: e, simp add: s)
    moreover have "63 \<notin> set (replaceAll False (RChr 63) rep b)"
      using less.hyps [of b] less.prems by (simp add: s)
    ultimately show ?thesis using a less.prems by simp
  qed
qed

lemma questionMark_replaced: "63 \<notin> set (jsReplace s questionMark (asc ''.''))"
proof -
  have "63 \<notin> set (asc ''.'')" by (simp add: asc_def)
  then have "63 \<notin> set (replaceAll False (RChr 63) (asc ''.'') s)" by (rule replaceAll_mark)
  then show ?thesis by (simp add: jsReplace_def questionMark_def asc_def)
qed

lemma removeAll_keeps_out: "c \<notin> set s \<Longrightarrow> c \<notin> set (removeAll patterns s)"
  unfolding removeAll_def
  by (induction patterns arbitrary: s) (simp_all add: jsReplace_keeps_out)

lemma closingLine_no_mark: "63 \<notin> set closingLine"
  by (simp add: closingLine_def asc_def)

lemma politeClosing_no_mark: "63 \<notin> set s \<Longrightarrow> 63 \<notin> set (politeClosing s)"
  by (simp add: politeClosing_def Let_def removeAll_keeps_out closingLine_no_mark)

lemma literals_no_mark:
  "63 \<notin> set [10, 10 :: nat]" "63 \<notin> set (asc '' '')" "63 \<notin> set (asc ''.'')"
  by (simp_all add: asc_def)

lemma cleanResponse_no_mark: "63 \<notin> set (cleanResponse aiResponse ending)"
  unfolding cleanResponse_def Let_def
  by (intro jsReplace_keeps_out trim_keeps_out literals_no_mark)
    (simp add: questionMark_replaced politeClosing_no_mark)

lemma showNat_digits: "set (showNat n) \<subseteq> {48..57}"
proof (induction n rule: showNat.induct)
  case (1 n)
  show ?case
  proof (cases "n < 10")
    case True
    then show ?thesis by (subst showNat.simps) simp
  next
    case False
    have "n mod 10 < 10" by simp
    then have "48 + n mod 10 \<in> {48..57}" by auto
    with 1 False show ?thesis by (subst showNat.simps) simp
  qed
qed

lemma showNat_no_mark: "63 \<notin> set (showNat n)"
  using showNat_digits [of n] by auto

lemma clean_no_mark: "63 \<notin> set s \<Longrightarrow> 63 \<notin> set (clean s)"
  by (simp add: clean_def trim_keeps_out jsReplace_keeps_out literals_no_mark)

lemma summaryItems_no_mark:
  "63 \<notin> set label \<Longrightarrow>
   \<forall>r \<in> set rs. 63 \<notin> set (title r) \<and> 63 \<notin> set (snippet r) \<and> 63 \<notin> set (link r) \<Longrightarrow>
   63 \<notin> set (summaryItems label i rs)"
proof (induction rs arbitrary: i)
  case Nil
  then show ?case by simp
next
  case (Cons r rs)
  have l: "63 \<notin> set (asc ''**'')" "63 \<notin> set (asc ''. '')" "63 \<notin> set (asc '')'')"
    by (simp_all add: asc_def)
  from Cons show ?case
    by (simp add: l showNat_no_mark clean_no_mark)
qed

lemma labels_no_mark:
  "63 \<notin> set viewSourceLabel" "63 \<notin> set hindiSourceLabel" "63 \<notin> set summaryHeader"
  by (simp_all add: asc_def summaryHeader_def viewSourceLabel_def hindiSourceLabel_def)

lemma resultsSummary_no_mark:
  assumes "\<forall>r \<in> set (take 3 rs). 63 \<notin> set (title r) \<and> 63 \<notin> set (snippet r) \<and> 63 \<notin> set (link r)"
  shows "63 \<notin> set (resultsSummary rs)"
proof (cases "length rs \<ge> 3")
  case True
  with assms show ?thesis
    by (simp add: resultsSummary_def labels_no_mark summaryItems_no_mark)
next
  case False
  then have "take 3 rs = rs" by simp
  with assms have "\<forall>r \<in> set rs. 63 \<notin> set (title r) \<and> 63 \<notin> set (snippet r) \<and> 63 \<notin> set (link r)"
    by simp
  with False show ?thesis
    by (simp add: resultsSummary_def labels_no_mark summaryItems_no_mark)
qed

lemma link_in_summary: "set (link r) \<subseteq> set (resultsSummary [r])"
  by (auto simp: resultsSummary_def)





section \<open>Properties of the tier of the source site\<close>

lemma premiumSites_eq:
  "premiumSites = [asc ''99acres'', asc ''magicbricks'', asc ''housing'', asc ''nobroker'',
     asc ''commonfloor'', asc ''squareyards'', asc ''makaan'', asc ''proptiger'']"
  by (simp add: premiumSites_def premiumPortals_def asc_def)

text \<open>
  Claim C10. In relevance scoring the standard-tier bonus of 15 is added only for
  (lower-cased) links that contain \<open>propertywala\<close> or \<open>indiaproperty\<close>: whenever the standard-tier loop
  changes the score left by the premium loop, the score becomes 15 and the link contains
  one of these two names. The other four standard-tier names (\<open>commonfloor\<close>,
  \<open>squareyards\<close>, \<open>makaan\<close>, \<open>proptiger\<close>) are premium names as well: a link that
  contains one of them has score 20 after the premium loop, and the gate \<open>score = 0\<close>
  keeps the standard-tier loop from adding anything.
\<close>

theorem standard_bonus_sites:
  "(tierStandard linkLower (tierPremium linkLower 0) \<noteq> tierPremium linkLower 0 \<longrightarrow>
      tierStandard linkLower (tierPremium linkLower 0) = 15 \<and>
      (jsIncludes linkLower (asc ''propertywala'') \<or> jsIncludes linkLower (asc ''indiaproperty''))) \<and>
   (site \<in> set [asc ''commonfloor'', asc ''squareyards'', asc ''makaan'', asc ''proptiger''] \<longrightarrow>
      jsIncludes linkLower site \<longrightarrow>
      tierPremium linkLower 0 = 20 \<and> tierStandard linkLower (tierPremium linkLower 0) = 20)"
  unfolding tierStandard_def tierPremium_def premiumSites_eq standardSites_def
  by auto

theorem standard_bonus_sites_witness:
  "tierStandard (asc ''propertywala.com/p'') (tierPremium (asc ''propertywala.com/p'') 0)
     \<noteq> tierPremium (asc ''propertywala.com/p'') 0 \<and>
   tierStandard (asc ''propertywala.com/p'') (tierPremium (asc ''propertywala.com/p'') 0) = 15 \<and>
   jsIncludes (asc ''propertywala.com/p'') (asc ''propertywala'') \<and>
   asc ''makaan'' \<in> set [asc ''commonfloor'', asc ''squareyards'', asc ''makaan'', asc ''proptiger''] \<and>
   jsIncludes (asc ''makaan.com/p'') (asc ''makaan'') \<and>
   tierPremium (asc ''makaan.com/p'') 0 = 20 \<and>
   tierStandard (asc ''makaan.com/p'') (tierPremium (asc ''makaan.com/p'') 0) = 20"
proof -
  have a: "jsIncludes (asc ''makaan.com/p'') (asc ''makaan'')"
    by (simp add: asc_def)
  have b: "asc ''makaan'' \<in> set [asc ''commonfloor'', asc ''squareyards'', asc ''makaan'', asc ''proptiger'']"
    by simp
  have c: "tierPremium (asc ''propertywala.com/p'') 0 = 0"
    by (simp add: tierPremium_def premiumSites_eq asc_def)
  have d: "tierStandard (asc ''propertywala.com/p'') 0 = 15"
    by (simp add: tierStandard_def standardSites_def asc_def)
  have e: "tierStandard (asc ''propertywala.com/p'') (tierPremium (asc ''propertywala.com/p'') 0)
     \<noteq> tierPremium (asc ''propertywala.com/p'') 0"
    by (simp add: c d)
  have f: "jsIncludes (asc ''propertywala.com/p'') (asc ''propertywala'')"
    by (simp add: asc_def)
  from standard_bonus_sites [of "asc ''propertywala.com/p''" "asc ''makaan''"] e
  have p1: "tierStandard (asc ''propertywala.com/p'') (tierPremium (asc ''propertywala.com/p'') 0) = 15"
    by blast
  from standard_bonus_sites [of "asc ''makaan.com/p''" "asc ''makaan''"] a b
  have p2: "tierPremium (asc ''makaan.com/p'') 0 = 20 \<and>
    tierStandard (asc ''makaan.com/p'') (tierPremium (asc ''makaan.com/p'') 0) = 20"
    by blast
  from a b e f p1 p2 show ?thesis
    by blast
qed

text \<open>
  Claim C9. For every input, the language classifier never returns the Marathi code
  \<open>mr\<close>: the Hindi entry is tried first, and its pattern for three Devanagari code
  units matches every text the Marathi pattern matches.
\<close>

theorem never_marathi: "detectLanguage text \<noteq> asc ''mr''"
proof (cases "text")
  case NotAString
  then show ?thesis by (simp add: detectLanguage_def codes_not_mr)
next
  case (Str s)
  with firstLanguage_not_mr [of s] show ?thesis
    by (simp add: detectLanguage_def codes_not_mr)
qed

theorem never_marathi_witness:
  "detectLanguage (Str [2350, 2354, 2366, 32, 2328, 2352, 32, 2361, 2357, 2375, 32, 2310, 2361, 2375])
     \<noteq> asc ''mr''"
  by (rule never_marathi)

text \<open>
  Claim C6, as amended. The classifier tries the languages in the order of
  \<open>languagePatterns\<close> and returns the first whose pattern matches. So a text that
  contains at least three contiguous code units from the block of a script is classified
  as that script's language provided no pattern of a language that stands earlier in the
  order matches it; a value that is not a string, the empty string and a text of white
  space only are classified as \<open>en\<close>.
\<close>

theorem classify_script:
  "((langCode, lo, hi) \<in> set scriptBlocks \<longrightarrow> hasRun lo hi s \<longrightarrow>
      \<not> matchesBefore languagePatterns langCode s \<longrightarrow> detectLanguage (Str s) = langCode) \<and>
   detectLanguage NotAString = asc ''en'' \<and>
   (trim s = [] \<longrightarrow> detectLanguage (Str s) = asc ''en'')"
proof (intro conjI impI)
  assume b: "(langCode, lo, hi) \<in> set scriptBlocks" and r: "hasRun lo hi s"
    and m: "\<not> matchesBefore languagePatterns langCode s"
  from b r have nb: "s \<noteq> [] \<and> trim s \<noteq> []" by (rule hasRun_not_blank)
  from b r have t: "jsTest (scriptRun lo hi) s" by (simp add: jsTest_scriptRun)
  from b have "langCode \<in> set (map fst scriptBlocks)" by force
  then consider "langCode = asc ''hi''" | "langCode = asc ''gu''" | "langCode = asc ''bn''"
    | "langCode = asc ''ta''" | "langCode = asc ''te''" | "langCode = asc ''kn''"
    | "langCode = asc ''ml''" | "langCode = asc ''pa''" | "langCode = asc ''ur''"
    by (auto simp: scriptBlocks_def)
  then have "firstLanguage languagePatterns s = langCode"
  proof cases
    case 1
    with b have "lo = 0x0900 \<and> hi = 0x097F" by (auto simp: scriptBlocks_def asc_def)
    with 1 t show ?thesis by (simp add: languagePatterns_def)
  next
    case 2
    with b have "lo = 0x0A80 \<and> hi = 0x0AFF" by (auto simp: scriptBlocks_def asc_def)
    with 2 t m show ?thesis by (simp add: languagePatterns_def asc_def)
  next
    case 3
    with b have "lo = 0x0980 \<and> hi = 0x09FF" by (auto simp: scriptBlocks_def asc_def)
    with 3 t m show ?thesis by (simp add: languagePatterns_def asc_def)
  next
    case 4
    with b have "lo = 0x0B80 \<and> hi = 0x0BFF" by (auto simp: scriptBlocks_def asc_def)
    with 4 t m show ?thesis by (simp add: languagePatterns_def asc_def)
  next
    case 5
    with b have "lo = 0x0C00 \<and> hi = 0x0C7F" by (auto simp: scriptBlocks_def asc_def)
    with 5 t m show ?thesis by (simp add: languagePatterns_def asc_def)
  next
    case 6
    with b have "lo = 0x0C80 \<and> hi = 0x0CFF" by (auto simp: scriptBlocks_def asc_def)
    with 6 t m show ?thesis by (simp add: languagePatterns_def asc_def)
  next
    case 7
    with b have "lo = 0x0D00 \<and> hi = 0x0D7F" by (auto simp: scriptBlocks_def asc_def)
    with 7 t m show ?thesis by (simp add: languagePatterns_def asc_def)
  next
    case 8
    with b have "lo = 0x0A00 \<and> hi = 0x0A7F" by (auto simp: scriptBlocks_def asc_def)
    with 8 t m show ?thesis by (simp add: languagePatterns_def asc_def)
  next
    case 9
    with b have "lo = 0x0600 \<and> hi = 0x06FF" by (auto simp: scriptBlocks_def asc_def)
    with 9 t m show ?thesis by (simp add: languagePatterns_def asc_def)
  qed
  with nb show "detectLanguage (Str s) = langCode"
    by (simp add: detectLanguage_def)
next
  show "detectLanguage NotAString = asc ''en''" by (simp add: detectLanguage_def)
next
  assume "trim s = []"
  then show "detectLanguage (Str s) = asc ''en''" by (simp add: detectLanguage_def)
qed

theorem classify_script_witness:
  "(asc ''gu'', 0x0A80, 0x0AFF) \<in> set scriptBlocks \<and>
   hasRun 0x0A80 0x0AFF [2734, 2709, 2750, 2728] \<and>
   \<not> matchesBefore languagePatterns (asc ''gu'') [2734, 2709, 2750, 2728] \<and>
   detectLanguage (Str [2734, 2709, 2750, 2728]) = asc ''gu'' \<and>
   detectLanguage NotAString = asc ''en'' \<and>
   trim [32, 9] = [] \<and>
   detectLanguage (Str [32, 9]) = asc ''en''"
proof -
  have h1: "(asc ''gu'', 0x0A80, 0x0AFF) \<in> set scriptBlocks"
    by (simp add: scriptBlocks_def)
  have h2: "hasRun 0x0A80 0x0AFF [2734, 2709, 2750, 2728]"
    by simp
  have w: "\<not> jsTest hindiWords [2734, 2709, 2750, 2728]"
    by (simp add: hindiWords_def regex_eval)
  have m: "\<not> jsTest marathiPattern [2734, 2709, 2750, 2728]"
    by (simp add: marathiPattern_def regex_eval)
  have h3: "\<not> matchesBefore languagePatterns (asc ''gu'') [2734, 2709, 2750, 2728]"
    by (simp add: languagePatterns_def jsTest_scriptRun w m)
  have h4: "trim [32, 9] = []"
    by (simp add: string_eval)
  from classify_script [of "asc ''gu''" "0x0A80" "0x0AFF" "[2734, 2709, 2750, 2728]"] h1 h2 h3
  have c1: "detectLanguage (Str [2734, 2709, 2750, 2728]) = asc ''gu''"
    by blast
  from classify_script [of "asc ''gu''" "0x0A80" "0x0AFF" "[32, 9]"] h4
  have c2: "detectLanguage NotAString = asc ''en'' \<and> detectLanguage (Str [32, 9]) = asc ''en''"
    by blast
  from h1 h2 h3 h4 c1 c2 show ?thesis
    by blast
qed

text \<open>
  The claim as stated fails on a text that mixes two scripts: this text holds four
  contiguous Gujarati code units and three Devanagari ones, no Hindi word and no Marathi
  keyword, and it is classified as \<open>hi\<close>, not as \<open>gu\<close>.
\<close>

theorem classify_script_counterexample:
  "hasRun 0x0A80 0x0AFF [2734, 2709, 2750, 2728, 32, 2344, 2327, 2352] \<and>
   \<not> jsTest hindiWords [2734, 2709, 2750, 2728, 32, 2344, 2327, 2352] \<and>
   \<not> jsTest marathiPattern [2734, 2709, 2750, 2728, 32, 2344, 2327, 2352] \<and>
   detectLanguage (Str [2734, 2709, 2750, 2728, 32, 2344, 2327, 2352]) = asc ''hi'' \<and>
   asc ''hi'' \<noteq> asc ''gu''"
proof -
  have t1: "hasRun 0x0A80 0x0AFF [2734, 2709, 2750, 2728, 32, 2344, 2327, 2352]"
    by simp
  have t2: "\<not> jsTest hindiWords [2734, 2709, 2750, 2728, 32, 2344, 2327, 2352]"
    by (simp add: hindiWords_def regex_eval)
  have t3: "\<not> jsTest marathiPattern [2734, 2709, 2750, 2728, 32, 2344, 2327, 2352]"
    by (simp add: marathiPattern_def regex_eval)
  have t4: "jsTest (scriptRun 0x0900 0x097F) [2734, 2709, 2750, 2728, 32, 2344, 2327, 2352]"
    by (simp add: jsTest_scriptRun)
  have t5: "trim [2734, 2709, 2750, 2728, 32, 2344, 2327, 2352]
      = [2734, 2709, 2750, 2728, 32, 2344, 2327, 2352]"
    by (simp add: string_eval)
  have t6: "detectLanguage (Str [2734, 2709, 2750, 2728, 32, 2344, 2327, 2352]) = asc ''hi''"
    by (simp add: detectLanguage_def t5 languagePatterns_def t4)
  have t7: "asc ''hi'' \<noteq> asc ''gu''"
    by (simp add: asc_def)
  from t1 t2 t3 t6 t7 show ?thesis
    by blast
qed

section \<open>Properties of the intent of a query\<close>

text \<open>
  Claim C1, as amended. For every query and every lead, the extraction copies the
  location, the budget and the property type verbatim from the lead whenever that slot is
  not empty there, and never replaces it by a value extracted from the query. The
  transaction type and the number of bedrooms are always extracted from the query: the
  lead is not consulted for them.
\<close>

theorem known_slots_carried_over:
  "(lead_preferredLocation lead \<noteq> [] \<longrightarrow>
      location (extractIntent query lead) = lead_preferredLocation lead) \<and>
   (lead_budget lead \<noteq> [] \<longrightarrow> budget (extractIntent query lead) = lead_budget lead) \<and>
   (lead_propertyType lead \<noteq> [] \<longrightarrow>
      propertyType (extractIntent query lead) = lead_propertyType lead) \<and>
   transactionType (extractIntent query lead) = extractTransactionType query \<and>
   bedrooms (extractIntent query lead) = extractBedrooms query"
  by (simp add: extractIntent_def extractLocation_def extractBudget_def extractPropertyType_def)

theorem known_slots_carried_over_witness:
  "lead_preferredLocation \<lparr>lead_preferredLocation = asc ''Mumbai'', lead_budget = asc ''5000000'',
        lead_propertyType = asc ''villa'', lead_transactionType = [], lead_bedrooms = []\<rparr> \<noteq> [] \<and>
   location (extractIntent (asc ''2 bhk flat in Pune under 40 lakh'')
      \<lparr>lead_preferredLocation = asc ''Mumbai'', lead_budget = asc ''5000000'',
        lead_propertyType = asc ''villa'', lead_transactionType = [], lead_bedrooms = []\<rparr>) = asc ''Mumbai'' \<and>
   budget (extractIntent (asc ''2 bhk flat in Pune under 40 lakh'')
      \<lparr>lead_preferredLocation = asc ''Mumbai'', lead_budget = asc ''5000000'',
        lead_propertyType = asc ''villa'', lead_transactionType = [], lead_bedrooms = []\<rparr>) = asc ''5000000'' \<and>
   propertyType (extractIntent (asc ''2 bhk flat in Pune under 40 lakh'')
      \<lparr>lead_preferredLocation = asc ''Mumbai'', lead_budget = asc ''5000000'',
        lead_propertyType = asc ''villa'', lead_transactionType = [], lead_bedrooms = []\<rparr>) = asc ''villa''"
proof -
  have n: "asc ''Mumbai'' \<noteq> []" "asc ''5000000'' \<noteq> []" "asc ''villa'' \<noteq> []"
    by (simp_all add: asc_def)
  from n known_slots_carried_over [of
      "\<lparr>lead_preferredLocation = asc ''Mumbai'', lead_budget = asc ''5000000'',
        lead_propertyType = asc ''villa'', lead_transactionType = [], lead_bedrooms = []\<rparr>"
      "asc ''2 bhk flat in Pune under 40 lakh''"]
  show ?thesis
    by simp
qed

text \<open>
  The claim as stated fails for the transaction type and for the number of bedrooms: a
  lead that knows \<open>buy\<close> and \<open>3\<close> gets \<open>rent\<close> and \<open>2\<close> from this query.
\<close>

lemma rent_query: "extractTransactionType (asc ''2 bhk flat for rent'') = asc ''rent''"
  by (simp add: extractTransactionType_def buyTerms_def rentTerms_def string_eval)

lemma two_bhk: "extractBedrooms (asc ''2 bhk flat for rent'') = asc ''2''"
  by (simp add: extractBedrooms_def bedroomPatterns_def toDigits_def toLowerCase_def regex_eval)

theorem known_slots_counterexample:
  "lead_transactionType \<lparr>lead_preferredLocation = [], lead_budget = [], lead_propertyType = [],
        lead_transactionType = asc ''buy'', lead_bedrooms = asc ''3''\<rparr> = asc ''buy'' \<and>
   transactionType (extractIntent (asc ''2 bhk flat for rent'')
      \<lparr>lead_preferredLocation = [], lead_budget = [], lead_propertyType = [],
        lead_transactionType = asc ''buy'', lead_bedrooms = asc ''3''\<rparr>) = asc ''rent'' \<and>
   asc ''rent'' \<noteq> asc ''buy'' \<and>
   lead_bedrooms \<lparr>lead_preferredLocation = [], lead_budget = [], lead_propertyType = [],
        lead_transactionType = asc ''buy'', lead_bedrooms = asc ''3''\<rparr> = asc ''3'' \<and>
   bedrooms (extractIntent (asc ''2 bhk flat for rent'')
      \<lparr>lead_preferredLocation = [], lead_budget = [], lead_propertyType = [],
        lead_transactionType = asc ''buy'', lead_bedrooms = asc ''3''\<rparr>) = asc ''2'' \<and>
   asc ''2'' \<noteq> asc ''3''"
proof -
  have d: "asc ''rent'' \<noteq> asc ''buy''" "asc ''2'' \<noteq> asc ''3''"
    by (simp_all add: asc_def)
  show ?thesis
    by (simp add: extractIntent_def rent_query two_bhk d)
qed

text \<open>
  Claim C5 (a defect of the code). The number words \<open>one\<close> to \<open>five\<close> before
  \<open>bhk\<close>, \<open>bedroom\<close> or \<open>bed\<close> are mapped to digits. The words \<open>single\<close>,
  \<open>double\<close> and \<open>triple\<close> are not: the fifth pattern has no capturing group, so that
  \<open>match[1]\<close> is undefined and the conversion of lines 171-173 is never reached.
\<close>

theorem number_words_extracted:
  "extractBedrooms (asc ''Two Bedroom'') = asc ''2'' \<and>
   extractBedrooms (asc ''five bhk'') = asc ''5''"
  by (simp add: extractBedrooms_def bedroomPatterns_def toDigits_def toLowerCase_def regex_eval)

theorem double_bedroom_not_extracted:
  "extractBedrooms (asc ''double bedroom'') = [] \<and>
   bedrooms (extractIntent (asc ''double bedroom'')
      \<lparr>lead_preferredLocation = [], lead_budget = [], lead_propertyType = [],
        lead_transactionType = [], lead_bedrooms = []\<rparr>) = []"
  by (simp add: extractIntent_def extractBedrooms_def bedroomPatterns_def toDigits_def
      toLowerCase_def regex_eval)

section \<open>Properties of the ranking\<close>

lemma sortByScore_sorted:
  "sorted_wrt (\<lambda>a b. relevanceScore a \<ge> relevanceScore b) (sortByScore rs)"
proof -
  have "sorted (map (\<lambda>r. - relevanceScore r) (sortByScore rs))"
    by (simp add: sortByScore_def)
  then show ?thesis
    by (simp add: sorted_wrt_map)
qed

lemma sortByScore_stable:
  "filter (\<lambda>r. relevanceScore r = k) (sortByScore rs) = filter (\<lambda>r. relevanceScore r = k) rs"
proof -
  have "filter (\<lambda>r. - relevanceScore r = - k) (sort_key (\<lambda>r. - relevanceScore r) rs)
      = filter (\<lambda>r. - relevanceScore r = - k) rs"
    by (rule sort_key_stable)
  then show ?thesis by (simp add: sortByScore_def)
qed

lemma prefix_filter_take: "prefix (filter P (take n xs)) (filter P xs)"
proof -
  have "prefix (take n xs) xs" by (rule take_is_prefix)
  then show ?thesis by (rule filter_mono_prefix)
qed

text \<open>
  Claim C3. For every list of raw items, query and intent, the ranked list has at most
  five elements; they are the details of the first five scored items, which are ordered by
  falling relevance score; and for every score, the ranked items with that score stand in
  the order in which they stand among the raw items (they are a prefix of the raw items
  with that score).
\<close>

theorem ranked_results:
  "length (rankResults items query i) \<le> 5 \<and>
   rankResults items query i = map enhance (take 5 (scoredResults items query i)) \<and>
   sorted_wrt (\<lambda>a b. relevanceScore a \<ge> relevanceScore b) (take 5 (scoredResults items query i)) \<and>
   (\<forall>k. prefix (filter (\<lambda>r. relevanceScore r = k) (take 5 (scoredResults items query i)))
          (filter (\<lambda>r. relevanceScore r = k)
             (map (withScore query (location i) (propertyType i) (transactionType i) (bedrooms i)) items)))"
proof (intro conjI allI)
  show "length (rankResults items query i) \<le> 5"
    by (simp add: rankResults_def)
  show "rankResults items query i = map enhance (take 5 (scoredResults items query i))"
    by (simp add: rankResults_def take_map)
  show "sorted_wrt (\<lambda>a b. relevanceScore a \<ge> relevanceScore b) (take 5 (scoredResults items query i))"
    unfolding scoredResults_def by (rule sorted_wrt_take) (rule sortByScore_sorted)
  fix k
  have "prefix (filter (\<lambda>r. relevanceScore r = k) (take 5 (scoredResults items query i)))
      (filter (\<lambda>r. relevanceScore r = k) (scoredResults items query i))"
    by (rule prefix_filter_take)
  then show "prefix (filter (\<lambda>r. relevanceScore r = k) (take 5 (scoredResults items query i)))
          (filter (\<lambda>r. relevanceScore r = k)
             (map (withScore query (location i) (propertyType i) (transactionType i) (bedrooms i)) items))"
    by (simp add: scoredResults_def sortByScore_stable)
qed

theorem ranked_results_witness:
  "length (rankResults
      [\<lparr>title = asc ''Flat in Pune'', link = asc ''a.in'', snippet = asc ''2 bhk'', item_pagemap = None\<rparr>,
       \<lparr>title = asc ''Villa in Goa'', link = asc ''b.in'', snippet = asc ''4 bhk'', item_pagemap = None\<rparr>]
      (asc ''flat in pune'')
      \<lparr>location = asc ''pune'', budget = [], propertyType = asc ''flat'', transactionType = [],
        bedrooms = []\<rparr>) \<le> 5"
  using ranked_results [of
      "[\<lparr>title = asc ''Flat in Pune'', link = asc ''a.in'', snippet = asc ''2 bhk'', item_pagemap = None\<rparr>,
       \<lparr>title = asc ''Villa in Goa'', link = asc ''b.in'', snippet = asc ''4 bhk'', item_pagemap = None\<rparr>]"
      "asc ''flat in pune''"
      "\<lparr>location = asc ''pune'', budget = [], propertyType = asc ''flat'', transactionType = [],
        bedrooms = []\<rparr>"]
  by blast




text \<open>
  Claim C7. While the turns are scanned, each of the four \<open>askedAbout\<close> booleans can
  only go from false to true: a turn never resets one. So scanning a window that contains
  every turn of another window (the same matching turns or more) leaves true every boolean
  that is true for the smaller window.
\<close>

theorem asked_monotone:
  "((askedAboutName info \<longrightarrow> askedAboutName (scanTurn m info)) \<and>
    (askedAboutBudget info \<longrightarrow> askedAboutBudget (scanTurn m info)) \<and>
    (askedAboutLocation info \<longrightarrow> askedAboutLocation (scanTurn m info)) \<and>
    (askedAboutPropertyType info \<longrightarrow> askedAboutPropertyType (scanTurn m info))) \<and>
   (set turns \<subseteq> set turns' \<longrightarrow>
     (askedAboutName (extractInfoFromHistory turns) \<longrightarrow>
        askedAboutName (extractInfoFromHistory turns')) \<and>
     (askedAboutBudget (extractInfoFromHistory turns) \<longrightarrow>
        askedAboutBudget (extractInfoFromHistory turns')) \<and>
     (askedAboutLocation (extractInfoFromHistory turns) \<longrightarrow>
        askedAboutLocation (extractInfoFromHistory turns')) \<and>
     (askedAboutPropertyType (extractInfoFromHistory turns) \<longrightarrow>
        askedAboutPropertyType (extractInfoFromHistory turns')))"
  unfolding extractInfoFromHistory_def asked_name_fold asked_budget_fold asked_location_fold
    asked_type_fold asked_step
  by (auto simp: noInfo_def)

lemma budget_question: "anyTests budgetQuestionPatterns (asc ''What is your budget?'')"
  by (simp add: anyTests_def budgetQuestionPatterns_def regex_eval)

theorem asked_monotone_witness:
  "askedAboutBudget (scanTurn \<lparr>role = Assistant, content = asc ''What is your budget?''\<rparr> noInfo) \<and>
   askedAboutBudget (scanTurn \<lparr>role = User, content = asc ''hello''\<rparr>
     (scanTurn \<lparr>role = Assistant, content = asc ''What is your budget?''\<rparr> noInfo)) \<and>
   set [\<lparr>role = Assistant, content = asc ''What is your budget?''\<rparr>]
     \<subseteq> set [\<lparr>role = User, content = asc ''hello''\<rparr>,
         \<lparr>role = Assistant, content = asc ''What is your budget?''\<rparr>,
         \<lparr>role = User, content = asc ''about 50 lakh''\<rparr>] \<and>
   askedAboutBudget (extractInfoFromHistory
     [\<lparr>role = Assistant, content = asc ''What is your budget?''\<rparr>]) \<and>
   askedAboutBudget (extractInfoFromHistory
     [\<lparr>role = User, content = asc ''hello''\<rparr>,
      \<lparr>role = Assistant, content = asc ''What is your budget?''\<rparr>,
      \<lparr>role = User, content = asc ''about 50 lakh''\<rparr>])"
proof -
  have a: "askedAboutBudget (scanTurn \<lparr>role = Assistant, content = asc ''What is your budget?''\<rparr> noInfo)"
    by (simp add: asked_step budget_question)
  have s: "set [\<lparr>role = Assistant, content = asc ''What is your budget?''\<rparr>]
     \<subseteq> set [\<lparr>role = User, content = asc ''hello''\<rparr>,
         \<lparr>role = Assistant, content = asc ''What is your budget?''\<rparr>,
         \<lparr>role = User, content = asc ''about 50 lakh''\<rparr>]"
    by simp
  have b: "askedAboutBudget (extractInfoFromHistory
     [\<lparr>role = Assistant, content = asc ''What is your budget?''\<rparr>])"
    by (simp add: extractInfoFromHistory_def asked_step budget_question)
  from a asked_monotone [of
      "scanTurn \<lparr>role = Assistant, content = asc ''What is your budget?''\<rparr> noInfo"
      "\<lparr>role = User, content = asc ''hello''\<rparr>"
      "[\<lparr>role = Assistant, content = asc ''What is your budget?''\<rparr>]"
      "[\<lparr>role = User, content = asc ''hello''\<rparr>,
         \<lparr>role = Assistant, content = asc ''What is your budget?''\<rparr>,
         \<lparr>role = User, content = asc ''about 50 lakh''\<rparr>]"]
  have c: "askedAboutBudget (scanTurn \<lparr>role = User, content = asc ''hello''\<rparr>
     (scanTurn \<lparr>role = Assistant, content = asc ''What is your budget?''\<rparr> noInfo))"
    by blast
  from s b asked_monotone [of
      "scanTurn \<lparr>role = Assistant, content = asc ''What is your budget?''\<rparr> noInfo"
      "\<lparr>role = User, content = asc ''hello''\<rparr>"
      "[\<lparr>role = Assistant, content = asc ''What is your budget?''\<rparr>]"
      "[\<lparr>role = User, content = asc ''hello''\<rparr>,
         \<lparr>role = Assistant, content = asc ''What is your budget?''\<rparr>,
         \<lparr>role = User, content = asc ''about 50 lakh''\<rparr>]"]
  have d: "askedAboutBudget (extractInfoFromHistory
     [\<lparr>role = User, content = asc ''hello''\<rparr>,
      \<lparr>role = Assistant, content = asc ''What is your budget?''\<rparr>,
      \<lparr>role = User, content = asc ''about 50 lakh''\<rparr>])"
    by blast
  from a s b c d show ?thesis
    by blast
qed

text \<open>
  Claim C4, as amended. When the list of results is not empty, the returned text is the
  cleaned text followed by the digest of the results. The cleaned text never contains a
  question mark (code unit 63): every one is removed or turned into a full stop. The
  digest is appended after the cleaning, so the whole text is free of question marks
  when no title, snippet or link of the first three results contains one. (With an empty
  or missing list the generated text is returned as it is: claim C8.)
\<close>

theorem cleaned_response_no_question_mark:
  "63 \<notin> set (cleanResponse aiResponse ending) \<and>
   (results \<noteq> [] \<longrightarrow>
      appendSearchResults aiResponse (Some results) userMessage
        = cleanResponse aiResponse (isConversationEnding userMessage) @ resultsSummary results) \<and>
   (results \<noteq> [] \<longrightarrow>
      (\<forall>r \<in> set (take 3 results).
          63 \<notin> set (title r) \<and> 63 \<notin> set (snippet r) \<and> 63 \<notin> set (link r)) \<longrightarrow>
      63 \<notin> set (appendSearchResults aiResponse (Some results) userMessage))"
  by (simp add: appendSearchResults_def cleanResponse_no_mark resultsSummary_no_mark)

theorem cleaned_response_witness:
  "[\<lparr>title = asc ''Flats'', link = asc ''http://x.in/1'', snippet = asc ''2 bhk''\<rparr>] \<noteq> [] \<and>
   63 \<notin> set (asc ''Flats'') \<and> 63 \<notin> set (asc ''2 bhk'') \<and> 63 \<notin> set (asc ''http://x.in/1'') \<and>
   63 \<notin> set (appendSearchResults (asc ''Is it ok?'')
      (Some [\<lparr>title = asc ''Flats'', link = asc ''http://x.in/1'', snippet = asc ''2 bhk''\<rparr>])
      (asc ''price trend in pune''))"
proof -
  have n: "[\<lparr>title = asc ''Flats'', link = asc ''http://x.in/1'', snippet = asc ''2 bhk''\<rparr>] \<noteq> []"
    by simp
  have m: "63 \<notin> set (asc ''Flats'')" "63 \<notin> set (asc ''2 bhk'')" "63 \<notin> set (asc ''http://x.in/1'')"
    by (simp_all add: asc_def)
  then have h: "\<forall>r \<in> set (take 3
        [\<lparr>title = asc ''Flats'', link = asc ''http://x.in/1'', snippet = asc ''2 bhk''\<rparr>]).
      63 \<notin> set (title r) \<and> 63 \<notin> set (snippet r) \<and> 63 \<notin> set (link r)"
    by simp
  from n h cleaned_response_no_question_mark [of "asc ''Is it ok?''" True
      "[\<lparr>title = asc ''Flats'', link = asc ''http://x.in/1'', snippet = asc ''2 bhk''\<rparr>]"
      "asc ''price trend in pune''"]
  have c: "63 \<notin> set (appendSearchResults (asc ''Is it ok?'')
      (Some [\<lparr>title = asc ''Flats'', link = asc ''http://x.in/1'', snippet = asc ''2 bhk''\<rparr>])
      (asc ''price trend in pune''))"
    by blast
  from n m c show ?thesis
    by blast
qed

text \<open>
  The claim as stated fails in two ways: with an empty list of results the generated text
  comes back with its question mark, and with a result whose link has a query part the
  digest brings a question mark into the text.
\<close>

theorem question_mark_counterexample:
  "63 \<in> set (appendSearchResults (asc ''Is it ok?'') (Some ([] :: listing list)) (asc ''hello'')) \<and>
   63 \<in> set (appendSearchResults (asc ''Prices are rising.'')
      (Some [\<lparr>title = asc ''Flats'', link = asc ''http://x.in/?id=1'', snippet = asc ''2 bhk''\<rparr>])
      (asc ''price trend in pune''))"
proof -
  have a: "appendSearchResults (asc ''Is it ok?'') (Some ([] :: listing list)) (asc ''hello'')
      = asc ''Is it ok?''"
    by (simp add: appendSearchResults_def)
  have b: "63 \<in> set (asc ''Is it ok?'')"
    by (simp add: asc_def)
  have "63 \<in> set (link \<lparr>title = asc ''Flats'', link = asc ''http://x.in/?id=1'', snippet = asc ''2 bhk''\<rparr>)"
    by (simp add: asc_def)
  then have "63 \<in> set (resultsSummary
      [\<lparr>title = asc ''Flats'', link = asc ''http://x.in/?id=1'', snippet = asc ''2 bhk''\<rparr>])"
    using link_in_summary by blast
  then have c: "63 \<in> set (appendSearchResults (asc ''Prices are rising.'')
      (Some [\<lparr>title = asc ''Flats'', link = asc ''http://x.in/?id=1'', snippet = asc ''2 bhk''\<rparr>])
      (asc ''price trend in pune''))"
    by (simp add: appendSearchResults_def)
  from a b c show ?thesis by simp
qed



end
